theory Spec2Isabelle
  imports Complex_Main
begin

section \<open>Encoding utilities (src/utils/encoding.ts)\<close>

text \<open>
  JavaScript strings are modelled as \<open>string\<close> (ASCII only), a \<open>bigint\<close> as \<open>int\<close>, an
  integral \<open>number\<close> as \<open>int\<close> with \<open>None\<close> for \<open>NaN\<close> where the source can produce it,
  a byte of a \<open>Uint8Array\<close> as a \<open>nat\<close> below 256.
\<close>

type_synonym byte = nat

subsection \<open>Digits, \<open>toString(radix)\<close>, \<open>BigInt(string)\<close>\<close>

definition digit_char :: "nat \<Rightarrow> char" where
  "digit_char d =
     (if d < 36 then ''0123456789abcdefghijklmnopqrstuvwxyz'' ! d else CHR ''?'')"

definition digit_val :: "char \<Rightarrow> nat option" where
  "digit_val c =
     (let n = (of_char c :: nat)
      in if 48 \<le> n \<and> n \<le> 57 then Some (n - 48)
         else if 97 \<le> n \<and> n \<le> 122 then Some (n - 87)
         else if 65 \<le> n \<and> n \<le> 90 then Some (n - 55)
         else None)"

definition is_radix_digit :: "nat \<Rightarrow> char \<Rightarrow> bool" where
  "is_radix_digit b c = (case digit_val c of Some d \<Rightarrow> d < b | None \<Rightarrow> False)"

definition digits_value :: "nat \<Rightarrow> string \<Rightarrow> nat" where
  "digits_value b s =
     foldl (\<lambda>a c. a * b + (case digit_val c of Some d \<Rightarrow> d | None \<Rightarrow> 0)) 0 s"

definition parse_digits :: "nat \<Rightarrow> string \<Rightarrow> nat option" where
  "parse_digits b s =
     (if s \<noteq> [] \<and> list_all (is_radix_digit b) s then Some (digits_value b s) else None)"

text \<open>\<open>n.toString(b)\<close> for a non-negative integer: at least one digit, no leading zero.\<close>

function nat_to_radix :: "nat \<Rightarrow> nat \<Rightarrow> string" where
  "nat_to_radix b n =
     (if n < b \<or> b < 2 then [digit_char n]
      else nat_to_radix b (n div b) @ [digit_char (n mod b)])"
  by pat_completeness auto
termination
  by (relation "measure snd") auto

declare nat_to_radix.simps [simp del]

definition bigint_toString :: "nat \<Rightarrow> int \<Rightarrow> string" where
  "bigint_toString b n =
     (if n < 0 then CHR ''-'' # nat_to_radix b (nat (- n)) else nat_to_radix b (nat n))"

definition is_ws :: "char \<Rightarrow> bool" where
  "is_ws c = ((of_char c :: nat) \<in> {32, 9, 10, 11, 12, 13})"

definition trim :: "string \<Rightarrow> string" where
  "trim s = rev (dropWhile is_ws (rev (dropWhile is_ws s)))"

definition startsWith :: "string \<Rightarrow> string \<Rightarrow> bool" where
  "startsWith p s = (take (length p) s = p)"

text \<open>
  \<open>BigInt(s)\<close> for a string: surrounding white space is dropped, the empty string is 0, a
  \<open>0x\<close>, \<open>0o\<close> or \<open>0b\<close> prefix selects the radix (no sign then), otherwise an optionally
  signed decimal literal. \<open>None\<close> is the \<open>SyntaxError\<close>.
\<close>

definition BigInt_of_string :: "string \<Rightarrow> int option" where
  "BigInt_of_string s =
     (let t = trim s
      in if t = [] then Some 0
         else if startsWith ''0x'' t \<or> startsWith ''0X'' t
           then map_option int (parse_digits 16 (drop 2 t))
         else if startsWith ''0o'' t \<or> startsWith ''0O'' t
           then map_option int (parse_digits 8 (drop 2 t))
         else if startsWith ''0b'' t \<or> startsWith ''0B'' t
           then map_option int (parse_digits 2 (drop 2 t))
         else if startsWith ''-'' t then map_option (\<lambda>n. - int n) (parse_digits 10 (drop 1 t))
         else if startsWith ''+'' t then map_option int (parse_digits 10 (drop 1 t))
         else map_option int (parse_digits 10 t))"

subsection \<open>\<open>toHex\<close>\<close>

definition toHex :: "int \<Rightarrow> string" where
  "toHex v =
     (let hexStr = bigint_toString 16 v;
          hexStr = (if hexStr = [] then ''0'' else hexStr)
      in ''0x'' @ hexStr)"

subsection \<open>\<open>parseEther\<close> and \<open>formatEther\<close>\<close>

fun split_on :: "char \<Rightarrow> string \<Rightarrow> string list" where
  "split_on sep [] = [[]]"
| "split_on sep (c # cs) =
     (if c = sep then [] # split_on sep cs
      else (case split_on sep cs of [] \<Rightarrow> [[c]] | p # ps \<Rightarrow> (c # p) # ps))"

definition padEnd :: "nat \<Rightarrow> char \<Rightarrow> string \<Rightarrow> string" where
  "padEnd n c s = s @ replicate (n - length s) c"

definition padStart :: "nat \<Rightarrow> char \<Rightarrow> string \<Rightarrow> string" where
  "padStart n c s = replicate (n - length s) c @ s"

definition parseEther :: "string \<Rightarrow> int option" where
  "parseEther v =
     (case split_on CHR ''.'' v of
        [] \<Rightarrow> None
      | whole # rest \<Rightarrow>
          (let decimal = (case rest of [] \<Rightarrow> [] | d # _ \<Rightarrow> d);
               paddedDecimal = take 18 (padEnd 18 CHR ''0'' decimal)
           in BigInt_of_string (whole @ paddedDecimal)))"

text \<open>
  \<open>parseFloat\<close> reads the longest prefix that is a decimal literal and rounds its value to a
  double. The value before rounding is \<open>parseFloat_exact\<close>; \<open>None\<close> is \<open>NaN\<close>. The rounding
  is the parameter \<open>rnd\<close> of \<open>parseFloat\<close>. Exponents and \<open>Infinity\<close> are left out: the
  texts \<open>formatEther\<close> builds hold only digits, \<open>-\<close> and \<open>.\<close>.
\<close>

definition parseFloat_exact :: "string \<Rightarrow> rat option" where
  "parseFloat_exact s =
     (let t = dropWhile is_ws s;
          neg = startsWith ''-'' t;
          u = (if startsWith ''-'' t \<or> startsWith ''+'' t then drop 1 t else t);
          ip = takeWhile (is_radix_digit 10) u;
          r = dropWhile (is_radix_digit 10) u;
          fp = (if startsWith ''.'' r then takeWhile (is_radix_digit 10) (drop 1 r) else [])
      in if ip = [] \<and> fp = [] then None
         else Some ((if neg then - 1 else 1) *
                (of_nat (digits_value 10 ip) + of_nat (digits_value 10 fp) / 10 ^ length fp)))"

definition parseFloat :: "(rat \<Rightarrow> 'n) \<Rightarrow> string \<Rightarrow> 'n option" where
  "parseFloat rnd s = map_option rnd (parseFloat_exact s)"

definition formatEther :: "(rat \<Rightarrow> 'n) \<Rightarrow> int \<Rightarrow> 'n option" where
  "formatEther rnd wei =
     (let ethString = bigint_toString 10 wei
      in if length ethString \<le> 18
         then parseFloat rnd (''0.'' @ padStart 18 CHR ''0'' ethString)
         else (let wholePart = take (length ethString - 18) ethString;
                   decimalPart = drop (length ethString - 18) ethString
               in parseFloat rnd (wholePart @ ''.'' @ decimalPart)))"


subsection \<open>\<open>parseInt(s, 16)\<close>, \<open>hexToBytes\<close>, bytes to hex\<close>

text \<open>
  \<open>parseInt(s, 16)\<close>: leading white space, a sign and a \<open>0x\<close> prefix are skipped, then the
  longest run of hexadecimal digits is read; \<open>None\<close> is \<open>NaN\<close>. (The result is a double in
  JavaScript: exact below \<open>2^53\<close>, which is all the model relies on.)
\<close>

definition parseInt16 :: "string \<Rightarrow> int option" where
  "parseInt16 s =
     (let t = dropWhile is_ws s;
          neg = startsWith ''-'' t;
          u = (if startsWith ''-'' t \<or> startsWith ''+'' t then drop 1 t else t);
          v = (if startsWith ''0x'' u \<or> startsWith ''0X'' u then drop 2 u else u);
          ds = takeWhile (is_radix_digit 16) v
      in if ds = [] then None
         else Some ((if neg then - 1 else 1) * int (digits_value 16 ds)))"

text \<open>\<open>s.replace(pat, rep)\<close> with a string pattern: the first occurrence only.\<close>

fun replace_first :: "string \<Rightarrow> string \<Rightarrow> string \<Rightarrow> string" where
  "replace_first pat rep [] = (if pat = [] then rep else [])"
| "replace_first pat rep (c # cs) =
     (if startsWith pat (c # cs) then rep @ drop (length pat) (c # cs)
      else c # replace_first pat rep cs)"

text \<open>
  The loop of \<open>hexToBytes\<close> writes \<open>bytes[i / 2]\<close> for \<open>i = 0, 2, ...\<close>; a write past the
  end of the \<open>Uint8Array\<close> is dropped, \<open>NaN\<close> is stored as 0, other values modulo 256.
\<close>

definition hexToBytes :: "string \<Rightarrow> byte list" where
  "hexToBytes hex =
     (let cleanHex = replace_first ''0x'' [] hex
      in map (\<lambda>k. case parseInt16 (take 2 (drop (2 * k) cleanHex)) of
                      None \<Rightarrow> 0
                    | Some v \<Rightarrow> nat (v mod 256))
             [0..<length cleanHex div 2])"

text \<open>\<open>byte.toString(16).padStart(2, '0')\<close>, joined.\<close>

definition bytes_hex :: "byte list \<Rightarrow> string" where
  "bytes_hex bs = concat (map (\<lambda>b. padStart 2 CHR ''0'' (nat_to_radix 16 b)) bs)"

definition bytesToHex :: "byte list \<Rightarrow> string" where
  "bytesToHex bs = ''0x'' @ bytes_hex bs"

definition lower_char :: "char \<Rightarrow> char" where
  "lower_char c =
     (case map_of (zip ''ABCDEFGHIJKLMNOPQRSTUVWXYZ'' ''abcdefghijklmnopqrstuvwxyz'') c of
        None \<Rightarrow> c
      | Some l \<Rightarrow> l)"

definition toLowerCase :: "string \<Rightarrow> string" where
  "toLowerCase s = map lower_char s"

subsection \<open>The RLP encoder and \<open>btoa\<close>\<close>

text \<open>
  Modelled from the spec: the \<open>encode\<close> function of the \<open>rlp\<close> package, which the
  repository imports and does not contain. The spec asks for the standard recursive
  length-prefix rules: a single byte below 128 is its own encoding, a string of fewer
  than 56 bytes gets the header \<open>128 + length\<close>, a longer one \<open>183 + n\<close> followed by the
  \<open>n\<close> big-endian bytes of its length, and a list likewise from 192. The package reads a
  string that starts with \<open>0x\<close> as hexadecimal, left-padded with one \<open>0\<close> to an even
  number of digits, and any other string as its characters; \<open>None\<close> stands for an input
  the package does not accept (a digit that is not hexadecimal).
\<close>

datatype rlp_input = Str string | EmptyList

function be_bytes :: "nat \<Rightarrow> byte list" where
  "be_bytes n = (if n = 0 then [] else be_bytes (n div 256) @ [n mod 256])"
  by pat_completeness auto
termination
  by (relation "measure id") auto

declare be_bytes.simps [simp del]

fun hex_pairs :: "string \<Rightarrow> byte list option" where
  "hex_pairs [] = Some []"
| "hex_pairs [c] = None"
| "hex_pairs (c # d # cs) =
     (case (digit_val c, digit_val d, hex_pairs cs) of
        (Some h, Some l, Some bs) \<Rightarrow> if h < 16 \<and> l < 16 then Some ((16 * h + l) # bs) else None
      | _ \<Rightarrow> None)"

definition padToEven :: "string \<Rightarrow> string" where
  "padToEven s = (if odd (length s) then CHR ''0'' # s else s)"

definition rlp_toBytes :: "string \<Rightarrow> byte list option" where
  "rlp_toBytes s =
     (if startsWith ''0x'' s then hex_pairs (padToEven (drop 2 s))
      else Some (map of_char s))"

definition rlp_encodeLength :: "nat \<Rightarrow> nat \<Rightarrow> byte list" where
  "rlp_encodeLength len offset =
     (if len < 56 then [len + offset]
      else (let hexLength = be_bytes len in (offset + 55 + length hexLength) # hexLength))"

definition rlp_encode_bytes :: "byte list \<Rightarrow> byte list" where
  "rlp_encode_bytes bs =
     (case bs of
        [b] \<Rightarrow> if b < 128 then [b] else rlp_encodeLength 1 128 @ [b]
      | _ \<Rightarrow> rlp_encodeLength (length bs) 128 @ bs)"

definition rlp_encode_item :: "rlp_input \<Rightarrow> byte list option" where
  "rlp_encode_item x =
     (case x of
        Str s \<Rightarrow> map_option rlp_encode_bytes (rlp_toBytes s)
      | EmptyList \<Rightarrow> Some (rlp_encodeLength 0 192))"

definition rlpEncode :: "rlp_input list \<Rightarrow> byte list option" where
  "rlpEncode xs =
     (case those (map rlp_encode_item xs) of
        None \<Rightarrow> None
      | Some outs \<Rightarrow> Some (rlp_encodeLength (length (concat outs)) 192 @ concat outs))"

text \<open>\<open>btoa(String.fromCharCode(...bytes))\<close>: base64 with the standard alphabet and padding.\<close>

definition b64_char :: "nat \<Rightarrow> char" where
  "b64_char i =
     (if i < 64
      then ''ABCDEFGHIJKLMNOPQRSTUVWXYZabcdefghijklmnopqrstuvwxyz0123456789+/'' ! i
      else CHR ''='')"

fun btoa_bytes :: "byte list \<Rightarrow> string" where
  "btoa_bytes [] = []"
| "btoa_bytes [a] = [b64_char (a div 4), b64_char ((a mod 4) * 16), CHR ''='', CHR ''='']"
| "btoa_bytes [a, b] =
     [b64_char (a div 4), b64_char ((a mod 4) * 16 + b div 16),
      b64_char ((b mod 16) * 4), CHR ''='']"
| "btoa_bytes (a # b # c # rest) =
     [b64_char (a div 4), b64_char ((a mod 4) * 16 + b div 16),
      b64_char ((b mod 16) * 4 + c div 64), b64_char (c mod 64)] @ btoa_bytes rest"


section \<open>State store (src/core/state.ts)\<close>

text \<open>An \<open>Error\<close> instance carries its message; a thrown or rejected value is an \<open>Error\<close>
  instance or some other value.\<close>

datatype js_error = Error string

datatype thrown = Thrown js_error | ThrownOther

record balance_info =
  eth :: rat
  estimatedTransactions :: int

record SessionKeyState =
  sessionKey :: "string option"
  isActive :: bool
  balance :: "balance_info option"
  isLoading :: bool
  error :: "js_error option"

text \<open>\<open>Partial<SessionKeyState>\<close>: \<open>None\<close> is a key that is not in the object.\<close>

record partial_state =
  upd_sessionKey :: "string option option"
  upd_isActive :: "bool option"
  upd_balance :: "balance_info option option"
  upd_isLoading :: "bool option"
  upd_error :: "js_error option option"

definition no_updates :: partial_state where
  "no_updates = \<lparr>upd_sessionKey = None, upd_isActive = None, upd_balance = None,
                  upd_isLoading = None, upd_error = None\<rparr>"

text \<open>The item \<open>ten-session-key-state\<close> of \<open>localStorage\<close>: absent, not parseable, or the
  JSON object \<open>{sessionKey, isActive}\<close>.\<close>

datatype storage_item = NoItem | Malformed | Blob "string option" bool

datatype response =
    RNull
  | RString string
  | RObject
  | RFeeHistory "string list option" "string list list option"

text \<open>\<open>provider.request({method, params})\<close>, one constructor per method the code calls. The
  block tag \<open>'latest'\<close> is the same in every call and left out.\<close>

datatype rpc =
    eth_chainId
  | eth_getTransactionCount string
  | eth_feeHistory nat "nat list"
  | eth_estimateGas string string string string
  | eth_sendTransaction string string string
  | eth_getTransactionReceipt response
  | eth_getStorageAt string string
  | eth_getBalance string

text \<open>
  The module's variables and what it can observe of its environment: the state record, the
  subscriber \<open>Set\<close> (callbacks named by numbers, in insertion order), the storage item and
  whether storage access throws, the callback invocations so far, the requests made to the
  provider so far, and whether \<open>providerCleanup\<close> is set.
\<close>

record world =
  state :: SessionKeyState
  subscribers :: "nat list"
  storage :: storage_item
  storage_throws :: bool
  notified :: "(nat \<times> SessionKeyState) list"
  requests :: "rpc list"
  providerCleanup :: bool

definition initial_state :: SessionKeyState where
  "initial_state = \<lparr>sessionKey = None, isActive = False, balance = None,
                     isLoading = False, error = None\<rparr>"

text \<open>Module initialisation: the persisted blob, when it can be read, sets \<open>sessionKey\<close> and
  \<open>isActive\<close>.\<close>

definition load_state :: "bool \<Rightarrow> storage_item \<Rightarrow> SessionKeyState" where
  "load_state throws item =
     (if throws then initial_state
      else (case item of
              NoItem \<Rightarrow> initial_state
            | Malformed \<Rightarrow> initial_state
            | Blob k a \<Rightarrow> initial_state\<lparr>sessionKey := k, isActive := a\<rparr>))"

definition init_world :: "bool \<Rightarrow> storage_item \<Rightarrow> world" where
  "init_world throws item =
     \<lparr>state = load_state throws item, subscribers = [], storage = item,
      storage_throws = throws, notified = [], requests = [], providerCleanup = False\<rparr>"

definition getState :: "world \<Rightarrow> SessionKeyState" where
  "getState w = state w"

text \<open>\<open>{ ...state, ...updates }\<close>\<close>

definition merge :: "SessionKeyState \<Rightarrow> partial_state \<Rightarrow> SessionKeyState" where
  "merge s u =
     \<lparr>sessionKey = (case upd_sessionKey u of None \<Rightarrow> sessionKey s | Some v \<Rightarrow> v),
      isActive = (case upd_isActive u of None \<Rightarrow> isActive s | Some v \<Rightarrow> v),
      balance = (case upd_balance u of None \<Rightarrow> balance s | Some v \<Rightarrow> v),
      isLoading = (case upd_isLoading u of None \<Rightarrow> isLoading s | Some v \<Rightarrow> v),
      error = (case upd_error u of None \<Rightarrow> error s | Some v \<Rightarrow> v)\<rparr>"

text \<open>
  \<open>updateState\<close>. The body after the wait loop has no \<open>await\<close>, so \<open>isUpdating\<close> is false
  whenever a call starts and the update is applied before the call returns; the wait loop
  is left out. A subscriber that throws is caught; a subscriber is recorded as invoked
  with the snapshot it received.
\<close>

definition updateState :: "partial_state \<Rightarrow> world \<Rightarrow> world" where
  "updateState updates w =
     (let s = merge (state w) updates;
          st = (if (upd_sessionKey updates \<noteq> None \<or> upd_isActive updates \<noteq> None)
                   \<and> \<not> storage_throws w
                then Blob (sessionKey s) (isActive s) else storage w)
      in w\<lparr>state := s, storage := st,
           notified := notified w @ map (\<lambda>callback. (callback, s)) (subscribers w)\<rparr>)"

definition set_add :: "nat \<Rightarrow> nat list \<Rightarrow> nat list" where
  "set_add x xs = (if x \<in> set xs then xs else xs @ [x])"

definition set_delete :: "nat \<Rightarrow> nat list \<Rightarrow> nat list" where
  "set_delete x xs = removeAll x xs"

text \<open>\<open>subscribeToState\<close> returns the new world and the unsubscribe closure.\<close>

definition subscribeToState :: "nat \<Rightarrow> world \<Rightarrow> world \<times> (world \<Rightarrow> world)" where
  "subscribeToState callback w =
     (w\<lparr>subscribers := set_add callback (subscribers w)\<rparr>,
      \<lambda>w'. w'\<lparr>subscribers := set_delete callback (subscribers w')\<rparr>)"

definition clearPersistedState :: "world \<Rightarrow> world" where
  "clearPersistedState w = (if storage_throws w then w else w\<lparr>storage := NoItem\<rparr>)"

definition getSessionKey :: "world \<Rightarrow> string option" where
  "getSessionKey w = sessionKey (state w)"

definition getIsActive :: "world \<Rightarrow> bool" where
  "getIsActive w = isActive (state w)"

text \<open>The fields of the record, to speak of any one of them.\<close>

datatype field = F_sessionKey | F_isActive | F_balance | F_isLoading | F_error

datatype field_value =
    V_sessionKey "string option"
  | V_bool bool
  | V_balance "balance_info option"
  | V_error "js_error option"

fun field_of :: "field \<Rightarrow> SessionKeyState \<Rightarrow> field_value" where
  "field_of F_sessionKey s = V_sessionKey (sessionKey s)"
| "field_of F_isActive s = V_bool (isActive s)"
| "field_of F_balance s = V_balance (balance s)"
| "field_of F_isLoading s = V_bool (isLoading s)"
| "field_of F_error s = V_error (error s)"

text \<open>\<open>named u f\<close>: the value the partial record gives to field \<open>f\<close>, if \<open>f in u\<close>.\<close>

fun named :: "partial_state \<Rightarrow> field \<Rightarrow> field_value option" where
  "named u F_sessionKey = map_option V_sessionKey (upd_sessionKey u)"
| "named u F_isActive = map_option V_bool (upd_isActive u)"
| "named u F_balance = map_option V_balance (upd_balance u)"
| "named u F_isLoading = map_option V_bool (upd_isLoading u)"
| "named u F_error = map_option V_error (upd_error u)"

definition updateState_all :: "partial_state list \<Rightarrow> world \<Rightarrow> world" where
  "updateState_all us w = foldl (\<lambda>w u. updateState u w) w us"

section \<open>Provider and constants\<close>

text \<open>
  The provider is opaque: its answer to a request may depend on the requests made before.
  \<open>Inl\<close> is a rejected promise.
\<close>

type_synonym provider = "rpc list \<Rightarrow> rpc \<Rightarrow> thrown + response"

datatype priority = LOW | MEDIUM | HIGH

text \<open>
  src/utils/constants.ts is not among the sources; its values are parameters.
  \<open>scaled_floor p x\<close> stands for \<open>BigInt(Math.floor(Number(x) * BASE_FEE_MULTIPLIERS[p]))\<close>,
  a double-precision product, with \<open>None\<close> when \<open>BigInt\<close> throws a \<open>RangeError\<close>.
\<close>

record constants =
  TEN_CHAIN_ID :: int
  SESSION_KEY_CREATE :: string
  SESSION_KEY_RETRIEVE :: string
  SESSION_KEY_ACTIVATE :: string
  SESSION_KEY_DEACTIVATE :: string
  SESSION_KEY_DELETE :: string
  SESSION_KEY_EXECUTE :: string
  FEE_HISTORY_BLOCKS :: nat
  PRIORITY_FEE_PERCENTILES :: "nat list"
  scaled_floor :: "priority \<Rightarrow> int \<Rightarrow> int option"

text \<open>An asynchronous computation: it changes the world and ends in a value or a throw.\<close>

type_synonym 'a io = "world \<Rightarrow> world \<times> (thrown + 'a)"

definition io_return :: "'a \<Rightarrow> 'a io" where
  "io_return x w = (w, Inr x)"

definition io_throw :: "thrown \<Rightarrow> 'a io" where
  "io_throw t w = (w, Inl t)"

definition io_bind :: "'a io \<Rightarrow> ('a \<Rightarrow> 'b io) \<Rightarrow> 'b io" where
  "io_bind m f w = (case m w of (w', Inl t) \<Rightarrow> (w', Inl t) | (w', Inr x) \<Rightarrow> f x w')"

definition request :: "provider \<Rightarrow> rpc \<Rightarrow> response io" where
  "request prov call w = (w\<lparr>requests := requests w @ [call]\<rparr>, prov (requests w) call)"

definition io_update :: "partial_state \<Rightarrow> unit io" where
  "io_update u w = (updateState u w, Inr ())"

text \<open>The \<open>catch\<close> block every operation ends with: the thrown value, or a fresh \<open>Error\<close>
  with the operation's message when it is not an \<open>Error\<close>, is stored and thrown again.\<close>

definition catch_update :: "string \<Rightarrow> world \<times> (thrown + 'a) \<Rightarrow> world \<times> (js_error + 'a)" where
  "catch_update msg r =
     (case r of
        (w, Inr v) \<Rightarrow> (w, Inr v)
      | (w, Inl t) \<Rightarrow>
          (let err = (case t of Thrown e \<Rightarrow> e | ThrownOther \<Rightarrow> Error msg)
           in (updateState (no_updates\<lparr>upd_error := Some (Some err),
                                        upd_isLoading := Some False\<rparr>) w,
               Inl err)))"

definition truthy :: "response \<Rightarrow> bool" where
  "truthy r = (case r of RNull \<Rightarrow> False | RString s \<Rightarrow> s \<noteq> [] | _ \<Rightarrow> True)"

text \<open>\<open>String(r)\<close>, as \<open>parseInt\<close> applies it to its argument.\<close>

definition js_String :: "response \<Rightarrow> string" where
  "js_String r = (case r of RNull \<Rightarrow> ''null'' | RString s \<Rightarrow> s | _ \<Rightarrow> ''[object Object]'')"

definition WrongNetwork :: js_error where
  "WrongNetwork = Error ''Session Keys is only for TEN chain, please add or switch to TEN.''"

definition NoSessionKey :: js_error where
  "NoSessionKey = Error ''No active session key. Create and activate a session key first.''"

definition CreationFailed :: js_error where
  "CreationFailed =
     Error ''Failed to create session key - both creation and retrieval returned empty response''"

definition TypeError :: js_error where
  "TypeError = Error ''TypeError''"

definition SyntaxError :: js_error where
  "SyntaxError = Error ''SyntaxError: Cannot convert to a BigInt''"

definition RangeError :: js_error where
  "RangeError = Error ''RangeError: not an integer''"

definition checkTenNetwork :: "constants \<Rightarrow> provider \<Rightarrow> unit io" where
  "checkTenNetwork cfg prov =
     io_bind (request prov eth_chainId) (\<lambda>chainId.
       let chainIdInt = parseInt16 (js_String chainId)
       in if chainIdInt \<noteq> Some (TEN_CHAIN_ID cfg) then io_throw (Thrown WrongNetwork)
          else io_return ())"


section \<open>Session-key lifecycle (src/core/sessionKey.ts)\<close>

definition loading :: partial_state where
  "loading = no_updates\<lparr>upd_isLoading := Some True, upd_error := Some None\<rparr>"

text \<open>\<open>setupProviderListeners\<close>: the previous pair is detached, a new pair attached and
  \<open>providerCleanup\<close> set. No request is made.\<close>

definition setupProviderListeners :: "unit io" where
  "setupProviderListeners w = (w\<lparr>providerCleanup := True\<rparr>, Inr ())"

definition handleDisconnect :: "world \<Rightarrow> world" where
  "handleDisconnect w =
     updateState (no_updates\<lparr>upd_isActive := Some False,
                              upd_error := Some (Some (Error ''Provider disconnected''))\<rparr>) w"

definition handleChainChanged :: "world \<Rightarrow> world" where
  "handleChainChanged w =
     updateState (no_updates\<lparr>upd_isActive := Some False,
                              upd_error := Some (Some (Error ''Chain changed''))\<rparr>) w"

definition ZERO32 :: string where
  "ZERO32 = ''0x'' @ replicate 64 CHR ''0''"

definition is_empty_response :: "response \<Rightarrow> bool" where
  "is_empty_response r = (\<not> truthy r \<or> r = RString ZERO32)"

text \<open>\<open>'0x' + response.slice(-40)\<close>; a response that is not a string has no \<open>slice\<close>.\<close>

definition extract_address :: "response \<Rightarrow> string io" where
  "extract_address r =
     (case r of
        RString s \<Rightarrow> io_return (''0x'' @ drop (length s - 40) s)
      | _ \<Rightarrow> io_throw (Thrown TypeError))"

definition store_session_key :: "response \<Rightarrow> string io" where
  "store_session_key r =
     io_bind (extract_address r) (\<lambda>sessionKeyAddress.
     io_bind (io_update (no_updates\<lparr>upd_sessionKey := Some (Some sessionKeyAddress),
                                     upd_isLoading := Some False\<rparr>)) (\<lambda>_.
     io_return sessionKeyAddress))"

definition createSessionKey :: "constants \<Rightarrow> provider \<Rightarrow> world \<Rightarrow> world \<times> (js_error + string)" where
  "createSessionKey cfg prov w =
     catch_update ''Unknown error''
       (io_bind (io_update loading) (\<lambda>_.
        io_bind setupProviderListeners (\<lambda>_.
        io_bind (checkTenNetwork cfg prov) (\<lambda>_.
        io_bind (request prov (eth_getStorageAt (SESSION_KEY_CREATE cfg) ''0x0'')) (\<lambda>response.
          if is_empty_response response
          then io_bind (request prov (eth_getStorageAt (SESSION_KEY_RETRIEVE cfg) ''0x0''))
                 (\<lambda>existingKey.
                    if \<not> is_empty_response existingKey then store_session_key existingKey
                    else io_throw (Thrown CreationFailed))
          else store_session_key response)))) w)"

text \<open>
  \<open>checkTx\<close>, the confirmation poll of \<open>fundSessionKey\<close>: it calls itself until the receipt is
  truthy or the request throws. \<open>None\<close> is a poll that never returns. (The two-second
  pause between polls has no effect on the values.)
\<close>

partial_function (option) checkTx ::
    "provider \<Rightarrow> response \<Rightarrow> world \<Rightarrow> (world \<times> (thrown + response)) option" where
  "checkTx prov txHash w =
     (case request prov (eth_getTransactionReceipt txHash) w of
        (w', Inl t) \<Rightarrow> Some (w', Inl t)
      | (w', Inr receipt) \<Rightarrow>
          if truthy receipt then Some (w', Inr receipt) else checkTx prov txHash w')"

declare checkTx.simps [code]

definition fundSessionKey ::
    "constants \<Rightarrow> string \<Rightarrow> string \<Rightarrow> provider \<Rightarrow> string \<Rightarrow> world
       \<Rightarrow> (world \<times> (js_error + response)) option" where
  "fundSessionKey cfg sessionKeyAddress amount prov userAddress w =
     (case io_bind (io_update loading) (\<lambda>_.
           io_bind (checkTenNetwork cfg prov) (\<lambda>_.
             case parseEther amount of
               None \<Rightarrow> io_throw (Thrown SyntaxError)
             | Some valueInWei \<Rightarrow>
                 request prov (eth_sendTransaction sessionKeyAddress (toHex valueInWei)
                                 userAddress))) w of
        (w1, Inl t) \<Rightarrow> Some (catch_update ''Unknown error'' (w1, Inl t))
      | (w1, Inr txHash) \<Rightarrow>
          (case checkTx prov txHash w1 of
             None \<Rightarrow> None
           | Some (w2, Inl t) \<Rightarrow> Some (catch_update ''Unknown error'' (w2, Inl t))
           | Some (w2, Inr receipt) \<Rightarrow>
               Some (updateState (no_updates\<lparr>upd_isLoading := Some False\<rparr>) w2, Inr txHash)))"

definition activateSessionKey :: "constants \<Rightarrow> provider \<Rightarrow> world \<Rightarrow> world \<times> (js_error + unit)" where
  "activateSessionKey cfg prov w =
     catch_update ''Activation failed''
       (io_bind (io_update loading) (\<lambda>_.
        io_bind (checkTenNetwork cfg prov) (\<lambda>_.
        io_bind (request prov (eth_getStorageAt (SESSION_KEY_ACTIVATE cfg) ''0x0'')) (\<lambda>_.
        io_update (no_updates\<lparr>upd_isActive := Some True, upd_isLoading := Some False\<rparr>)))) w)"

definition deactivateSessionKey :: "constants \<Rightarrow> provider \<Rightarrow> world \<Rightarrow> world \<times> (js_error + unit)" where
  "deactivateSessionKey cfg prov w =
     catch_update ''Deactivation failed''
       (io_bind (io_update loading) (\<lambda>_.
        io_bind (checkTenNetwork cfg prov) (\<lambda>_.
        io_bind (request prov (eth_getStorageAt (SESSION_KEY_DEACTIVATE cfg) ''0x0'')) (\<lambda>_.
        io_update (no_updates\<lparr>upd_isActive := Some False, upd_isLoading := Some False\<rparr>)))) w)"

definition reset_key :: partial_state where
  "reset_key = no_updates\<lparr>upd_sessionKey := Some None, upd_isActive := Some False,
                           upd_balance := Some None, upd_isLoading := Some False\<rparr>"

definition deleteSessionKey :: "constants \<Rightarrow> provider \<Rightarrow> world \<Rightarrow> world \<times> (js_error + unit)" where
  "deleteSessionKey cfg prov w =
     catch_update ''Deletion failed''
       (io_bind (io_update loading) (\<lambda>_.
        io_bind (checkTenNetwork cfg prov) (\<lambda>_.
        io_bind (request prov (eth_getStorageAt (SESSION_KEY_DELETE cfg) ''0x0'')) (\<lambda>_.
        io_bind (\<lambda>w'. (clearPersistedState w', Inr ())) (\<lambda>_.
        io_bind (\<lambda>w'. (w'\<lparr>providerCleanup := False\<rparr>, Inr ())) (\<lambda>_.
        io_update reset_key))))) w)"

definition cleanupSessionKey :: "constants \<Rightarrow> provider \<Rightarrow> world \<Rightarrow> world \<times> (js_error + unit)" where
  "cleanupSessionKey cfg prov w =
     catch_update ''Cleanup failed''
       (io_bind (io_update loading) (\<lambda>_.
        io_bind (checkTenNetwork cfg prov) (\<lambda>_.
        io_bind (request prov (eth_getStorageAt (SESSION_KEY_DEACTIVATE cfg) ''0x0'')) (\<lambda>_.
        io_bind (request prov (eth_getStorageAt (SESSION_KEY_DELETE cfg) ''0x0'')) (\<lambda>_.
        io_update reset_key)))) w)"

section \<open>Transaction builder (src/core/transaction.ts and its second version)\<close>

record TransactionParams =
  tx_to :: string
  tx_data :: string
  tx_value :: "string option"
  tx_nonce :: "int option"
  tx_gasLimit :: "int option"
  tx_maxFeePerGas :: "string option"
  tx_maxPriorityFeePerGas :: "string option"

text \<open>\<open>BigInt(x)\<close> where \<open>x\<close> is a string or \<open>undefined\<close>.\<close>

definition BigInt_of :: "string option \<Rightarrow> int io" where
  "BigInt_of x =
     (case x of
        None \<Rightarrow> io_throw (Thrown TypeError)
      | Some s \<Rightarrow> (case BigInt_of_string s of
                     None \<Rightarrow> io_throw (Thrown SyntaxError)
                   | Some n \<Rightarrow> io_return n))"

definition last_opt :: "'a list \<Rightarrow> 'a option" where
  "last_opt xs = (if xs = [] then None else Some (last xs))"

definition nth_opt :: "'a list \<Rightarrow> nat \<Rightarrow> 'a option" where
  "nth_opt xs i = (if i < length xs then Some (xs ! i) else None)"

definition scaled :: "constants \<Rightarrow> priority \<Rightarrow> int \<Rightarrow> int io" where
  "scaled cfg p x =
     (case scaled_floor cfg p x of
        None \<Rightarrow> io_throw (Thrown RangeError)
      | Some b \<Rightarrow> io_return b)"

text \<open>\<open>calculateGasFees\<close> of src/core/transaction.ts; the result is
  \<open>(maxFeePerGas, maxPriorityFeePerGas)\<close>.\<close>

definition calculateGasFees :: "constants \<Rightarrow> provider \<Rightarrow> priority \<Rightarrow> (int \<times> int) io" where
  "calculateGasFees cfg prov p =
     io_bind (request prov (eth_feeHistory (FEE_HISTORY_BLOCKS cfg)
                              (PRIORITY_FEE_PERCENTILES cfg))) (\<lambda>feeHistory.
       case feeHistory of
         RNull \<Rightarrow> io_throw (Thrown TypeError)
       | RString _ \<Rightarrow> io_throw (Thrown TypeError)
       | RObject \<Rightarrow> io_throw (Thrown TypeError)
       | RFeeHistory baseFeePerGas reward \<Rightarrow>
           (case baseFeePerGas of
              None \<Rightarrow> io_throw (Thrown TypeError)
            | Some fees \<Rightarrow>
                io_bind (BigInt_of (last_opt fees)) (\<lambda>baseFee.
                let priorityFeeIndex = (if p = LOW then 0 else if p = HIGH then 2 else 1)
                in (case reward of
                      None \<Rightarrow> io_throw (Thrown TypeError)
                    | Some rows \<Rightarrow>
                        (case last_opt rows of
                           None \<Rightarrow> io_throw (Thrown TypeError)
                         | Some row \<Rightarrow>
                             io_bind (BigInt_of (nth_opt row priorityFeeIndex))
                               (\<lambda>maxPriorityFeePerGas.
                             io_bind (scaled cfg p baseFee) (\<lambda>b.
                             io_return (b + maxPriorityFeePerGas, maxPriorityFeePerGas))))))))"

text \<open>
  \<open>calculateGasFees\<close> of the second version (the one kept after encoding.ts): everything
  is inside a \<open>try\<close>, and the \<open>catch\<close> computes the fees from two constants.
\<close>

definition fallback_fees :: "constants \<Rightarrow> priority \<Rightarrow> (int \<times> int) io" where
  "fallback_fees cfg p =
     (let baseFeePerGas = 1000000000; priorityFeePerGas = 100000000
      in io_bind (scaled cfg p baseFeePerGas) (\<lambda>b.
         io_return (b + priorityFeePerGas, priorityFeePerGas)))"

definition calculateGasFees_v2 :: "constants \<Rightarrow> provider \<Rightarrow> priority \<Rightarrow> (int \<times> int) io" where
  "calculateGasFees_v2 cfg prov p w =
     (case io_bind (request prov (eth_feeHistory 1 [])) (\<lambda>feeHistory.
             case feeHistory of
               RFeeHistory (Some (fee0 # _)) _ \<Rightarrow>
                 if fee0 = [] then io_throw (Thrown (Error ''Invalid fee history response''))
                 else io_bind (BigInt_of (Some fee0)) (\<lambda>baseFee.
                      let priorityFeePerGas = 100000000
                      in io_bind (scaled cfg p baseFee) (\<lambda>b.
                         io_return (b + priorityFeePerGas, priorityFeePerGas)))
             | _ \<Rightarrow> io_throw (Thrown (Error ''Invalid fee history response''))) w of
        (w', Inr fees) \<Rightarrow> (w', Inr fees)
      | (w', Inl _) \<Rightarrow> fallback_fees cfg p w')"

text \<open>\<open>toHex\<close> of a number that may be \<open>NaN\<close>: \<open>BigInt(NaN)\<close> throws.\<close>

definition toHex_number :: "int option \<Rightarrow> thrown + string" where
  "toHex_number x = (case x of None \<Rightarrow> Inl (Thrown RangeError) | Some n \<Rightarrow> Inr (toHex n))"

definition or_default :: "string option \<Rightarrow> string \<Rightarrow> string" where
  "or_default x d = (case x of None \<Rightarrow> d | Some s \<Rightarrow> if s = [] then d else s)"

definition ensure_0x :: "rlp_input \<Rightarrow> rlp_input" where
  "ensure_0x v = (case v of Str s \<Rightarrow> if startsWith ''0x'' s then Str s else Str (''0x'' @ s)
                          | EmptyList \<Rightarrow> EmptyList)"

text \<open>The seven elements after the first five, which the two versions build alike.\<close>

definition tx_tail :: "TransactionParams \<Rightarrow> rlp_input list" where
  "tx_tail txParams =
     [Str (toLowerCase (tx_to txParams)),
      Str (or_default (map_option toLowerCase (tx_value txParams)) ''0x0''),
      Str (or_default (Some (toLowerCase (tx_data txParams))) ''0x''),
      EmptyList, Str ''0x'', Str ''0x'', Str ''0x'']"

text \<open>\<open>txArray\<close> of src/core/transaction.ts. The elements are evaluated in order, so the
  first \<open>NaN\<close> throws.\<close>

definition txArray ::
    "int option \<Rightarrow> int option \<Rightarrow> int \<Rightarrow> int \<Rightarrow> int option \<Rightarrow> TransactionParams
       \<Rightarrow> thrown + rlp_input list" where
  "txArray chainIdInt nonce maxPriorityFeePerGas maxFeePerGas gasLimit txParams =
     (case toHex_number chainIdInt of Inl t \<Rightarrow> Inl t | Inr c \<Rightarrow>
      case toHex_number nonce of Inl t \<Rightarrow> Inl t | Inr n \<Rightarrow>
      case toHex_number gasLimit of Inl t \<Rightarrow> Inl t | Inr g \<Rightarrow>
        Inr (map ensure_0x
               ([Str c, Str n, Str (toHex maxPriorityFeePerGas), Str (toHex maxFeePerGas), Str g]
                @ tx_tail txParams)))"

text \<open>\<open>txArray\<close> of the second version: \<open>nonce === 0 ? '0x' : toHex(nonce)\<close>.\<close>

definition txArray_v2 ::
    "int option \<Rightarrow> int option \<Rightarrow> int \<Rightarrow> int \<Rightarrow> int option \<Rightarrow> TransactionParams
       \<Rightarrow> thrown + rlp_input list" where
  "txArray_v2 chainIdInt nonce maxPriorityFeePerGas maxFeePerGas gasLimit txParams =
     (case toHex_number chainIdInt of Inl t \<Rightarrow> Inl t | Inr c \<Rightarrow>
      case (if nonce = Some 0 then Inr ''0x'' else toHex_number nonce) of Inl t \<Rightarrow> Inl t | Inr n \<Rightarrow>
      case toHex_number gasLimit of Inl t \<Rightarrow> Inl t | Inr g \<Rightarrow>
        Inr (map ensure_0x
               ([Str c, Str n, Str (toHex maxPriorityFeePerGas), Str (toHex maxFeePerGas), Str g]
                @ tx_tail txParams)))"

text \<open>Steps 6 to 8 of \<open>sendTransaction\<close>: RLP, the type byte 2, base64.\<close>

definition tx_base64 :: "rlp_input list \<Rightarrow> string io" where
  "tx_base64 arr =
     (case rlpEncode arr of
        None \<Rightarrow> io_throw (Thrown (Error ''invalid RLP input''))
      | Some rlpEncoded \<Rightarrow>
          (let rlpHex = bytes_hex rlpEncoded;
               txBytes = 2 # hexToBytes (''0x'' @ rlpHex)
           in io_return (btoa_bytes txBytes)))"

definition truthy_string :: "string option \<Rightarrow> bool" where
  "truthy_string x = (case x of None \<Rightarrow> False | Some s \<Rightarrow> s \<noteq> [])"

text \<open>
  The body of \<open>sendTransaction\<close>. The two versions differ only in \<open>calculateGasFees\<close> and in
  the nonce element of \<open>txArray\<close>, which are the parameters \<open>fees\<close> and \<open>build\<close>.
\<close>

definition sendTransaction_with ::
    "(constants \<Rightarrow> provider \<Rightarrow> priority \<Rightarrow> (int \<times> int) io)
     \<Rightarrow> (int option \<Rightarrow> int option \<Rightarrow> int \<Rightarrow> int \<Rightarrow> int option \<Rightarrow> TransactionParams
           \<Rightarrow> thrown + rlp_input list)
     \<Rightarrow> constants \<Rightarrow> TransactionParams \<Rightarrow> provider \<Rightarrow> world
     \<Rightarrow> world \<times> (js_error + response)" where
  "sendTransaction_with fees build cfg txParams prov w =
     catch_update ''Transaction failed''
       (io_bind (io_update loading) (\<lambda>_.
        io_bind (checkTenNetwork cfg prov) (\<lambda>_.
        io_bind (\<lambda>w'. (w', Inr (getSessionKey w'))) (\<lambda>key.
        case key of None \<Rightarrow> io_throw (Thrown NoSessionKey) | Some sessionKeyAddress \<Rightarrow>
        if sessionKeyAddress = [] then io_throw (Thrown NoSessionKey)
        else
        io_bind (request prov eth_chainId) (\<lambda>chainId.
        let chainIdInt = parseInt16 (js_String chainId) in
        io_bind (case tx_nonce txParams of
                   Some n \<Rightarrow> io_return (Some n)
                 | None \<Rightarrow>
                     io_bind (request prov (eth_getTransactionCount sessionKeyAddress))
                       (\<lambda>nonceHex. io_return (parseInt16 (js_String nonceHex)))) (\<lambda>nonce.
        io_bind (if truthy_string (tx_maxFeePerGas txParams)
                    \<and> truthy_string (tx_maxPriorityFeePerGas txParams)
                 then io_bind (BigInt_of (tx_maxFeePerGas txParams)) (\<lambda>maxFeePerGas.
                      io_bind (BigInt_of (tx_maxPriorityFeePerGas txParams))
                        (\<lambda>maxPriorityFeePerGas.
                      io_return (maxFeePerGas, maxPriorityFeePerGas)))
                 else fees cfg prov MEDIUM) (\<lambda>(maxFeePerGas, maxPriorityFeePerGas).
        io_bind (case tx_gasLimit txParams of
                   Some g \<Rightarrow>
                     if g \<noteq> 0 then io_return (Some g)
                     else io_bind (request prov (eth_estimateGas (tx_to txParams)
                                     (tx_data txParams) (or_default (tx_value txParams) ''0x0'')
                                     sessionKeyAddress))
                            (\<lambda>gasEstimate. io_return (parseInt16 (js_String gasEstimate)))
                 | None \<Rightarrow>
                     io_bind (request prov (eth_estimateGas (tx_to txParams)
                                (tx_data txParams) (or_default (tx_value txParams) ''0x0'')
                                sessionKeyAddress))
                       (\<lambda>gasEstimate. io_return (parseInt16 (js_String gasEstimate))))
          (\<lambda>gasLimit.
        case build chainIdInt nonce maxPriorityFeePerGas maxFeePerGas gasLimit txParams of
          Inl t \<Rightarrow> io_throw t
        | Inr arr \<Rightarrow>
            io_bind (tx_base64 arr) (\<lambda>txBase64.
            io_bind (request prov (eth_getStorageAt (SESSION_KEY_EXECUTE cfg) txBase64))
              (\<lambda>txHash.
            io_bind (io_update (no_updates\<lparr>upd_isLoading := Some False\<rparr>)) (\<lambda>_.
            io_return txHash)))))))))) w)"

definition sendTransaction ::
    "constants \<Rightarrow> TransactionParams \<Rightarrow> provider \<Rightarrow> world \<Rightarrow> world \<times> (js_error + response)" where
  "sendTransaction = sendTransaction_with calculateGasFees txArray"

definition sendTransaction_v2 ::
    "constants \<Rightarrow> TransactionParams \<Rightarrow> provider \<Rightarrow> world \<Rightarrow> world \<times> (js_error + response)" where
  "sendTransaction_v2 = sendTransaction_with calculateGasFees_v2 txArray_v2"


section \<open>Operations as steps of the store\<close>

text \<open>
  Everything that can change the store: the six lifecycle operations, the two versions of
  \<open>sendTransaction\<close>, the two provider events (their handlers run only while listeners are
  attached), subscribing, unsubscribing and \<open>clearPersistedState\<close>. \<open>step\<close> is \<open>None\<close>
  when the operation never returns.
\<close>

datatype operation =
    Create provider
  | Fund string string provider string
  | Activate provider
  | Deactivate provider
  | Delete provider
  | Cleanup provider
  | Send TransactionParams provider
  | Send_v2 TransactionParams provider
  | Disconnect
  | ChainChanged
  | Subscribe nat
  | Unsubscribe nat
  | ClearPersisted

fun step :: "constants \<Rightarrow> operation \<Rightarrow> world \<Rightarrow> world option" where
  "step cfg (Create prov) w = Some (fst (createSessionKey cfg prov w))"
| "step cfg (Fund a amount prov user) w = map_option fst (fundSessionKey cfg a amount prov user w)"
| "step cfg (Activate prov) w = Some (fst (activateSessionKey cfg prov w))"
| "step cfg (Deactivate prov) w = Some (fst (deactivateSessionKey cfg prov w))"
| "step cfg (Delete prov) w = Some (fst (deleteSessionKey cfg prov w))"
| "step cfg (Cleanup prov) w = Some (fst (cleanupSessionKey cfg prov w))"
| "step cfg (Send txParams prov) w = Some (fst (sendTransaction cfg txParams prov w))"
| "step cfg (Send_v2 txParams prov) w = Some (fst (sendTransaction_v2 cfg txParams prov w))"
| "step cfg Disconnect w = Some (if providerCleanup w then handleDisconnect w else w)"
| "step cfg ChainChanged w = Some (if providerCleanup w then handleChainChanged w else w)"
| "step cfg (Subscribe callback) w = Some (fst (subscribeToState callback w))"
| "step cfg (Unsubscribe callback) w = Some (snd (subscribeToState callback w) w)"
| "step cfg ClearPersisted w = Some (clearPersistedState w)"





text \<open>The list of partial records names each field at most once.\<close>

definition disjoint_fields :: "partial_state list \<Rightarrow> bool" where
  "disjoint_fields us =
     (\<forall>i < length us. \<forall>j < length us. i \<noteq> j \<longrightarrow>
        (\<forall>f \<in> {F_sessionKey, F_isActive, F_balance, F_isLoading, F_error}.
           named (us ! i) f = None \<or> named (us ! j) f = None))"

definition deliveries :: "nat \<Rightarrow> world \<Rightarrow> nat" where
  "deliveries callback w = length (filter (\<lambda>p. fst p = callback) (notified w))"

section \<open>Concrete inputs\<close>

definition example_constants :: constants where
  "example_constants =
     \<lparr>TEN_CHAIN_ID = 443, SESSION_KEY_CREATE = ''0x01'', SESSION_KEY_RETRIEVE = ''0x02'',
      SESSION_KEY_ACTIVATE = ''0x03'', SESSION_KEY_DEACTIVATE = ''0x04'',
      SESSION_KEY_DELETE = ''0x05'', SESSION_KEY_EXECUTE = ''0x06'',
      FEE_HISTORY_BLOCKS = 10, PRIORITY_FEE_PERCENTILES = [25, 50, 75],
      scaled_floor = (\<lambda>p x. Some (x * (case p of LOW \<Rightarrow> 11 | MEDIUM \<Rightarrow> 12 | HIGH \<Rightarrow> 15) div 10))\<rparr>"

text \<open>A provider on chain 443 whose fee-history query is rejected and whose other
  requests succeed; receipts are there at once.\<close>

definition provider_no_fee_history :: provider where
  "provider_no_fee_history hist call =
     (case call of
        eth_chainId \<Rightarrow> Inr (RString ''0x1bb'')
      | eth_feeHistory _ _ \<Rightarrow> Inl (Thrown (Error ''fee history unavailable''))
      | eth_estimateGas _ _ _ _ \<Rightarrow> Inr (RString ''0x5208'')
      | eth_getTransactionCount _ \<Rightarrow> Inr (RString ''0x0'')
      | eth_getTransactionReceipt _ \<Rightarrow> Inr RObject
      | _ \<Rightarrow> Inr (RString ''0xabc''))"

text \<open>A provider on chain 1.\<close>

definition provider_mainnet :: provider where
  "provider_mainnet hist call =
     (case call of eth_chainId \<Rightarrow> Inr (RString ''0x1'') | _ \<Rightarrow> Inr (RString ''0xabc''))"

text \<open>A provider on chain 443 that rejects every actuation call.\<close>

definition provider_rejecting :: provider where
  "provider_rejecting hist call =
     (case call of
        eth_chainId \<Rightarrow> Inr (RString ''0x1bb'')
      | eth_getStorageAt _ _ \<Rightarrow> Inl (Thrown (Error ''execution reverted''))
      | _ \<Rightarrow> Inr (RString ''0xabc''))"

text \<open>A provider on chain 443 that has a receipt from the \<open>k\<close>-th poll on, counting from 0;
  and one that never has a receipt.\<close>

definition polls :: "rpc list \<Rightarrow> nat" where
  "polls hist = length (filter (\<lambda>c. case c of eth_getTransactionReceipt _ \<Rightarrow> True | _ \<Rightarrow> False) hist)"

definition provider_receipt_after :: "nat \<Rightarrow> provider" where
  "provider_receipt_after k hist call =
     (case call of
        eth_chainId \<Rightarrow> Inr (RString ''0x1bb'')
      | eth_getTransactionReceipt _ \<Rightarrow> Inr (if k \<le> polls hist then RObject else RNull)
      | _ \<Rightarrow> Inr (RString ''0xabc''))"

definition provider_no_receipt :: provider where
  "provider_no_receipt hist call =
     (case call of
        eth_chainId \<Rightarrow> Inr (RString ''0x1bb'')
      | eth_getTransactionReceipt _ \<Rightarrow> Inr RNull
      | _ \<Rightarrow> Inr (RString ''0xabc''))"

definition fresh_world :: world where
  "fresh_world = init_world False NoItem"

text \<open>The store after a session key was created and not activated.\<close>

definition world_with_key :: world where
  "world_with_key =
     init_world False (Blob (Some ''0x00000000000000000000000000000000000000aa'') False)"

definition example_tx :: TransactionParams where
  "example_tx =
     \<lparr>tx_to = ''0xAbCd000000000000000000000000000000000001'', tx_data = ''0x'',
      tx_value = None, tx_nonce = Some 0, tx_gasLimit = None,
      tx_maxFeePerGas = None, tx_maxPriorityFeePerGas = None\<rparr>"

definition example_tx_with_fees :: TransactionParams where
  "example_tx_with_fees =
     example_tx\<lparr>tx_gasLimit := Some 100000, tx_maxFeePerGas := Some ''20000000000'',
                tx_maxPriorityFeePerGas := Some ''1000000000''\<rparr>"

definition example_updates :: "partial_state list" where
  "example_updates =
     [no_updates\<lparr>upd_isLoading := Some True\<rparr>,
      no_updates\<lparr>upd_sessionKey := Some (Some ''0xaa'')\<rparr>,
      no_updates\<lparr>upd_isActive := Some True, upd_error := Some (Some (Error ''late''))\<rparr>]"

text \<open>The world after \<open>i\<close> more receipt polls for \<open>txHash\<close>.\<close>

definition poll_world :: "response \<Rightarrow> nat \<Rightarrow> world \<Rightarrow> world" where
  "poll_world txHash i w =
     w\<lparr>requests := requests w @ replicate i (eth_getTransactionReceipt txHash)\<rparr>"

section \<open>Ether amounts: parse, then format\<close>

lemma digit_val_digit_char: "d < 36 \<Longrightarrow> digit_val (digit_char d) = Some d"
proof -
  assume "d < 36"
  then have "d \<in> set [0..<36]" by simp
  then show ?thesis
    unfolding digit_val_def digit_char_def Let_def
    by (simp add: upt_rec) (elim disjE; simp)
qed

lemma digits_value_append:
  "digits_value b (xs @ ys) = digits_value b xs * b ^ length ys + digits_value b ys"
proof (induction ys rule: rev_induct)
  case Nil then show ?case by (simp add: digits_value_def)
next
  case (snoc y ys)
  have "digits_value b (xs @ ys @ [y]) = digits_value b (xs @ ys) * b + (case digit_val y of Some d \<Rightarrow> d | None \<Rightarrow> 0)"
    by (simp add: digits_value_def)
  moreover have "digits_value b (ys @ [y]) = digits_value b ys * b + (case digit_val y of Some d \<Rightarrow> d | None \<Rightarrow> 0)"
    by (simp add: digits_value_def)
  ultimately show ?case using snoc by (simp add: algebra_simps)
qed

lemma digits_value_Nil: "digits_value b [] = 0"
  by (simp add: digits_value_def)

lemma digit_val_zero: "digit_val CHR ''0'' = Some 0"
  by (simp add: digit_val_def)

lemma digits_value_replicate_zero: "digits_value b (replicate k CHR ''0'') = 0"
proof (induction k)
  case 0 show ?case by (simp add: digits_value_def)
next
  case (Suc k)
  have "replicate (Suc k) CHR ''0'' = replicate k CHR ''0'' @ ''0''"
    by (simp add: replicate_append_same)
  then show ?case using Suc
    by (simp only: digits_value_append) (simp add: digits_value_def digit_val_zero)
qed

lemma radix_digit_bound: "2 \<le> b \<Longrightarrow> b \<le> 36 \<Longrightarrow> n < b \<Longrightarrow> is_radix_digit b (digit_char n)"
  by (simp add: is_radix_digit_def digit_val_digit_char)

lemma nat_to_radix_value: "2 \<le> b \<Longrightarrow> b \<le> 36 \<Longrightarrow> digits_value b (nat_to_radix b n) = n"
proof (induction b n rule: nat_to_radix.induct)
  case (1 b n)
  show ?case
  proof (cases "n < b \<or> b < 2")
    case True
    with 1(2,3) have "n < 36" by simp
    then show ?thesis using True
      by (subst nat_to_radix.simps) (simp add: digits_value_def digit_val_digit_char)
  next
    case False
    have "n mod b < b" using 1(2) by simp
    then have "n mod b < 36" using 1(3) by simp
    then show ?thesis using False 1
      by (subst nat_to_radix.simps) (simp add: digits_value_append digits_value_def digit_val_digit_char)
  qed
qed

lemma nat_to_radix_digits: "2 \<le> b \<Longrightarrow> b \<le> 36 \<Longrightarrow> list_all (is_radix_digit b) (nat_to_radix b n)"
proof (induction b n rule: nat_to_radix.induct)
  case (1 b n)
  show ?case
  proof (cases "n < b \<or> b < 2")
    case True
    then show ?thesis using 1(2,3)
      by (subst nat_to_radix.simps) (simp add: radix_digit_bound)
  next
    case False
    have "n mod b < b" using 1(2) by simp
    then show ?thesis using False 1
      by (subst nat_to_radix.simps) (simp add: radix_digit_bound)
  qed
qed

lemma nat_to_radix_nonempty: "nat_to_radix b n \<noteq> []"
  by (subst nat_to_radix.simps) simp

lemma digit_not_ws: "is_radix_digit 10 c \<Longrightarrow> \<not> is_ws c"
  by (auto simp: is_radix_digit_def digit_val_def is_ws_def Let_def split: if_splits)

lemma digit_not_special:
  "is_radix_digit 10 c \<Longrightarrow> c \<notin> {CHR ''.'', CHR ''-'', CHR ''+'', CHR ''x'', CHR ''X'', CHR ''o'', CHR ''O'', CHR ''b'', CHR ''B''}"
  by (auto simp: is_radix_digit_def digit_val_def Let_def split: if_splits)

lemma dot_not_digit: "\<not> is_radix_digit 10 CHR ''.''" "\<not> is_ws CHR ''.''"
  by (simp_all add: is_radix_digit_def digit_val_def is_ws_def)

lemma parseFloat_exact_decimal:
  assumes a: "list_all (is_radix_digit 10) a" and b: "list_all (is_radix_digit 10) b"
    and ne: "a \<noteq> [] \<or> b \<noteq> []"
  shows "parseFloat_exact (a @ CHR ''.'' # b) =
           Some (of_nat (digits_value 10 a) + of_nat (digits_value 10 b) / 10 ^ length b)"
proof -
  let ?s = "a @ CHR ''.'' # b"
  have hd_ok: "\<not> is_ws (hd ?s)" "hd ?s \<noteq> CHR ''-''" "hd ?s \<noteq> CHR ''+''"
    using a digit_not_ws digit_not_special dot_not_digit by (cases a; auto)+
  have t: "dropWhile is_ws ?s = ?s" using hd_ok(1) by (cases a) auto
  have sg: "startsWith ''-'' ?s = False" "startsWith ''+'' ?s = False"
    using hd_ok(2,3) by (cases a; simp add: startsWith_def)+
  have ip: "takeWhile (is_radix_digit 10) ?s = a"
    using a dot_not_digit by (simp add: list_all_iff takeWhile_append2)
  have r: "dropWhile (is_radix_digit 10) ?s = CHR ''.'' # b"
    using a dot_not_digit by (simp add: list_all_iff dropWhile_append2)
  have fp: "takeWhile (is_radix_digit 10) b = b"
    using b by (simp add: list_all_iff)
  have dot: "startsWith ''.'' (CHR ''.'' # b)" by (simp add: startsWith_def)
  show ?thesis
    unfolding parseFloat_exact_def Let_def t
    using ne by (simp add: sg ip r dot fp)
qed

lemma formatEther_nat: "formatEther rnd (int n) = Some (rnd (of_nat n / 10 ^ 18))"
proof -
  let ?s = "nat_to_radix 10 n"
  have dg: "list_all (is_radix_digit 10) ?s" by (rule nat_to_radix_digits) simp_all
  have v: "digits_value 10 ?s = n" by (rule nat_to_radix_value) simp_all
  have ts: "bigint_toString 10 (int n) = ?s" by (simp add: bigint_toString_def)
  show ?thesis
  proof (cases "length ?s \<le> 18")
    case True
    let ?p = "padStart 18 CHR ''0'' ?s"
    have pd: "list_all (is_radix_digit 10) ?p"
      using dg by (auto simp: padStart_def list_all_iff is_radix_digit_def digit_val_zero)
    have pl: "length ?p = 18" using True by (simp add: padStart_def)
    have pv: "digits_value 10 ?p = n"
      by (simp add: padStart_def digits_value_append digits_value_replicate_zero v)
    have z: "list_all (is_radix_digit 10) ''0''" "digits_value 10 ''0'' = 0"
      by (simp_all add: is_radix_digit_def digit_val_zero digits_value_def)
    have "parseFloat_exact (''0'' @ CHR ''.'' # ?p) = Some (of_nat 0 + of_nat n / 10 ^ 18)"
      using parseFloat_exact_decimal[OF z(1) pd] by (simp add: pl pv z(2))
    then show ?thesis using True
      by (simp add: formatEther_def ts parseFloat_def)
  next
    case False
    let ?a = "take (length ?s - 18) ?s" and ?b = "drop (length ?s - 18) ?s"
    have ad: "list_all (is_radix_digit 10) ?a" and bd: "list_all (is_radix_digit 10) ?b"
      using dg by (auto simp: list_all_iff dest: in_set_takeD in_set_dropD)
    have bl: "length ?b = 18" using False by simp
    have ane: "?a \<noteq> []" using False by (simp add: nat_to_radix_nonempty)
    have "digits_value 10 (?a @ ?b) = digits_value 10 ?a * 10 ^ 18 + digits_value 10 ?b"
      by (simp only: digits_value_append bl)
    then have split: "n = digits_value 10 ?a * 10 ^ 18 + digits_value 10 ?b"
      using v by simp
    have "parseFloat_exact (?a @ CHR ''.'' # ?b) =
            Some (of_nat (digits_value 10 ?a) + of_nat (digits_value 10 ?b) / 10 ^ 18)"
      using parseFloat_exact_decimal[OF ad bd] ane bl by simp
    also have "of_nat (digits_value 10 ?a) + of_nat (digits_value 10 ?b) / 10 ^ 18
                 = (of_nat n :: rat) / 10 ^ 18"
      by (subst (3) split) (simp add: field_simps)
    finally show ?thesis using False
      by (simp add: formatEther_def ts parseFloat_def Let_def)
  qed
qed


lemma split_on_append:
  "sep \<notin> set a \<Longrightarrow> split_on sep (a @ sep # r) = a # split_on sep r"
  by (induction a) auto

lemma split_on_none: "sep \<notin> set a \<Longrightarrow> split_on sep a = [a]"
  by (induction a) auto

lemma trim_id: "s \<noteq> [] \<Longrightarrow> \<not> is_ws (hd s) \<Longrightarrow> \<not> is_ws (last s) \<Longrightarrow> trim s = s"
proof -
  assume ne: "s \<noteq> []" and h: "\<not> is_ws (hd s)" and l: "\<not> is_ws (last s)"
  have 1: "dropWhile is_ws s = s" using ne h by (cases s) auto
  have "hd (rev s) = last s" using ne by (simp add: hd_rev)
  then have 2: "dropWhile is_ws (rev s) = rev s" using l by (simp add: dropWhile_eq_self_iff)
  show ?thesis by (simp add: trim_def 1 2)
qed

lemma startsWith_needs_member: "startsWith p s \<Longrightarrow> set p \<subseteq> set s"
  by (metis startsWith_def set_take_subset)

lemma BigInt_of_digits:
  assumes d: "list_all (is_radix_digit 10) t" and ne: "t \<noteq> []"
  shows "BigInt_of_string t = Some (int (digits_value 10 t))"
proof -
  have mem: "\<And>c. c \<in> set t \<Longrightarrow> is_radix_digit 10 c" using d by (simp add: list_all_iff)
  have "hd t \<in> set t" "last t \<in> set t" using ne by simp_all
  then have "\<not> is_ws (hd t)" "\<not> is_ws (last t)" using mem digit_not_ws by blast+
  then have tr: "trim t = t" using ne by (simp add: trim_id)
  have no: "\<And>p c. c \<in> set p \<Longrightarrow> \<not> is_radix_digit 10 c \<Longrightarrow> \<not> startsWith p t"
    using mem startsWith_needs_member by blast
  have nd: "\<not> is_radix_digit 10 CHR ''x''" "\<not> is_radix_digit 10 CHR ''X''"
    "\<not> is_radix_digit 10 CHR ''o''" "\<not> is_radix_digit 10 CHR ''O''"
    "\<not> is_radix_digit 10 CHR ''b''" "\<not> is_radix_digit 10 CHR ''B''"
    "\<not> is_radix_digit 10 CHR ''-''" "\<not> is_radix_digit 10 CHR ''+''"
    by (simp_all add: is_radix_digit_def digit_val_def)
  have pre: "\<not> startsWith ''0x'' t" "\<not> startsWith ''0X'' t" "\<not> startsWith ''0o'' t"
    "\<not> startsWith ''0O'' t" "\<not> startsWith ''0b'' t" "\<not> startsWith ''0B'' t"
    "\<not> startsWith ''-'' t" "\<not> startsWith ''+'' t"
    using nd no[of "CHR ''x''" "''0x''"] no[of "CHR ''X''" "''0X''"] no[of "CHR ''o''" "''0o''"]
      no[of "CHR ''O''" "''0O''"] no[of "CHR ''b''" "''0b''"] no[of "CHR ''B''" "''0B''"]
      no[of "CHR ''-''" "''-''"] no[of "CHR ''+''" "''+''"]
    by simp_all
  show ?thesis
    unfolding BigInt_of_string_def Let_def tr
    using ne d pre by (simp add: parse_digits_def)
qed

lemma parseEther_padded:
  assumes w: "list_all (is_radix_digit 10) whole" and f: "list_all (is_radix_digit 10) dec"
    and k: "length dec \<le> 18"
  shows "BigInt_of_string (whole @ take 18 (padEnd 18 CHR ''0'' dec)) =
     Some (int (digits_value 10 whole * 10 ^ 18 + digits_value 10 dec * 10 ^ (18 - length dec)))"
proof -
  let ?z = "replicate (18 - length dec) CHR ''0''"
  have pad: "take 18 (padEnd 18 CHR ''0'' dec) = dec @ ?z"
    using k by (simp add: padEnd_def)
  have zd: "list_all (is_radix_digit 10) ?z"
    by (auto simp: list_all_iff is_radix_digit_def digit_val_zero)
  have len: "length (dec @ ?z) = 18" using k by simp
  have dg: "list_all (is_radix_digit 10) (whole @ dec @ ?z)" using w f zd by simp
  have ne: "whole @ dec @ ?z \<noteq> []" using len by auto
  have "digits_value 10 (whole @ (dec @ ?z)) =
          digits_value 10 whole * 10 ^ 18 + digits_value 10 (dec @ ?z)"
    by (simp only: digits_value_append len)
  moreover have "digits_value 10 (dec @ ?z) = digits_value 10 dec * 10 ^ (18 - length dec)"
    by (simp add: digits_value_append digits_value_replicate_zero)
  ultimately show ?thesis
    using BigInt_of_digits[OF dg ne] by (simp add: pad)
qed

text \<open>
  C8, for amounts without a sign. For every unsigned decimal ether amount with at most 18
  fractional digits (digits, a point, digits; either side may be empty but not both; also
  digits alone), \<open>parseEther\<close> succeeds and \<open>formatEther\<close> of the result is the number
  the amount denotes: the rounding to a double of its exact decimal value, which is also
  what \<open>parseFloat\<close> reads from the original text. Signed amounts are not covered.
\<close>

theorem parseEther_formatEther_roundtrip:
  assumes w: "list_all (is_radix_digit 10) whole" and f: "list_all (is_radix_digit 10) dec"
    and ne: "whole \<noteq> [] \<or> dec \<noteq> []" and k: "length dec \<le> 18"
  shows "parseEther (whole @ ''.'' @ dec) =
           Some (int (digits_value 10 whole * 10 ^ 18
                      + digits_value 10 dec * 10 ^ (18 - length dec)))
       \<and> Option.bind (parseEther (whole @ ''.'' @ dec)) (formatEther rnd) =
           Some (rnd (of_nat (digits_value 10 whole)
                      + of_nat (digits_value 10 dec) / 10 ^ length dec))
       \<and> Option.bind (parseEther (whole @ ''.'' @ dec)) (formatEther rnd) =
           parseFloat rnd (whole @ ''.'' @ dec)
       \<and> (whole \<noteq> [] \<longrightarrow>
            Option.bind (parseEther whole) (formatEther rnd) =
              Some (rnd (of_nat (digits_value 10 whole)))
          \<and> Option.bind (parseEther whole) (formatEther rnd) = parseFloat rnd whole)"
proof -
  let ?W = "digits_value 10 whole" and ?F = "digits_value 10 dec"
  have nodot: "CHR ''.'' \<notin> set whole" "CHR ''.'' \<notin> set dec"
    using w f dot_not_digit(1) by (auto simp: list_all_iff)
  have sp: "split_on CHR ''.'' (whole @ CHR ''.'' # dec) = [whole, dec]"
    using nodot by (simp add: split_on_append split_on_none)
  have pe: "parseEther (whole @ CHR ''.'' # dec) = Some (int (?W * 10 ^ 18 + ?F * 10 ^ (18 - length dec)))"
    using parseEther_padded[OF w f k] by (simp add: parseEther_def sp)
  have "(of_nat (?W * 10 ^ 18 + ?F * 10 ^ (18 - length dec)) :: rat) / 10 ^ 18
          = of_nat ?W + of_nat ?F * (10 ^ (18 - length dec) / 10 ^ 18)"
    by (simp add: field_simps)
  also have "(10 :: rat) ^ (18 - length dec) / 10 ^ 18 = 1 / 10 ^ length dec"
    using k by (simp add: power_diff field_simps)
  finally have val: "(of_nat (?W * 10 ^ 18 + ?F * 10 ^ (18 - length dec)) :: rat) / 10 ^ 18
          = of_nat ?W + of_nat ?F / 10 ^ length dec" by simp
  have fe: "Option.bind (parseEther (whole @ CHR ''.'' # dec)) (formatEther rnd) =
        Some (rnd (of_nat ?W + of_nat ?F / 10 ^ length dec))"
    by (simp only: pe Option.bind.simps formatEther_nat val)
  have pf: "parseFloat rnd (whole @ CHR ''.'' # dec) =
        Some (rnd (of_nat ?W + of_nat ?F / 10 ^ length dec))"
    using parseFloat_exact_decimal[OF w f ne] by (simp add: parseFloat_def)
  have int_case: "Option.bind (parseEther whole) (formatEther rnd) = Some (rnd (of_nat ?W))
       \<and> Option.bind (parseEther whole) (formatEther rnd) = parseFloat rnd whole" if wne: "whole \<noteq> []"
  proof -
    have "parseEther whole = Some (int (?W * 10 ^ 18 + digits_value 10 [] * 10 ^ (18 - length ([]::string))))"
      using parseEther_padded[OF w, of "[]"] nodot(1) by (simp add: parseEther_def split_on_none)
    then have p: "parseEther whole = Some (int (?W * 10 ^ 18))" by (simp add: digits_value_def)
    have "(of_nat (?W * 10 ^ 18) :: rat) / 10 ^ 18 = of_nat ?W" by simp
    then have 1: "Option.bind (parseEther whole) (formatEther rnd) = Some (rnd (of_nat ?W))"
      by (simp only: p Option.bind.simps formatEther_nat)
    have hdw: "hd whole \<in> set whole" using wne by simp
    then have hd_ok: "\<not> is_ws (hd whole)" "hd whole \<noteq> CHR ''-''" "hd whole \<noteq> CHR ''+''"
      using w digit_not_ws digit_not_special by (auto simp: list_all_iff)
    have t: "dropWhile is_ws whole = whole" using hd_ok(1) wne by (cases whole) auto
    have sg: "startsWith ''-'' whole = False" "startsWith ''+'' whole = False"
      using hd_ok(2,3) wne by (cases whole; simp add: startsWith_def)+
    have tw: "takeWhile (is_radix_digit 10) whole = whole" "dropWhile (is_radix_digit 10) whole = []"
      using w by (simp_all add: list_all_iff)
    have nd: "startsWith ''.'' [] = False" by (simp add: startsWith_def)
    have "parseFloat_exact whole = Some (of_nat ?W)"
      unfolding parseFloat_exact_def Let_def t
      using wne by (simp add: sg tw nd digits_value_Nil)
    then show ?thesis using 1 by (simp add: parseFloat_def)
  qed
  have c3: "Option.bind (parseEther (whole @ CHR ''.'' # dec)) (formatEther rnd) =
        parseFloat rnd (whole @ CHR ''.'' # dec)"
    using fe pf by simp
  have eq: "whole @ ''.'' @ dec = whole @ CHR ''.'' # dec" by simp
  show ?thesis unfolding eq using pe fe c3 int_case by blast
qed

theorem parseEther_formatEther_roundtrip_witness:
  "list_all (is_radix_digit 10) ''0'' \<and> list_all (is_radix_digit 10) ''025''
   \<and> parseEther ''0.025'' = Some 25000000000000000
   \<and> formatEther (\<lambda>q. q) 25000000000000000 = Some (1 / 40)
   \<and> parseFloat (\<lambda>q. q) ''0.025'' = Some (1 / 40)"
proof -
  have w: "list_all (is_radix_digit 10) ''0''" and f: "list_all (is_radix_digit 10) ''025''"
    by (simp_all add: is_radix_digit_def digit_val_def)
  have v: "digits_value 10 ''0'' = 0" "digits_value 10 ''025'' = 25"
    by (simp_all add: digits_value_def digit_val_def)
  note r = parseEther_formatEther_roundtrip[OF w f, of "\<lambda>q. q"]
  from r have p: "parseEther ''0.025'' = Some 25000000000000000" by (simp add: v)
  from r have "Option.bind (parseEther ''0.025'') (formatEther (\<lambda>q. q)) = Some (1 / 40)"
    and "parseFloat (\<lambda>q. q) ''0.025'' = Some (1 / 40)"
    by (auto simp: v)
  then show ?thesis using w f by (simp add: p)
qed

section \<open>Facts about the request sequence\<close>

lemma requests_updateState: "requests (updateState u w) = requests w"
  by (simp add: updateState_def Let_def)

lemma io_bind_update: "io_bind (io_update u) f w = f () (updateState u w)"
  by (simp add: io_bind_def io_update_def)

lemma io_bind_setup: "io_bind setupProviderListeners f w = f () (w\<lparr>providerCleanup := True\<rparr>)"
  by (simp add: io_bind_def setupProviderListeners_def)

lemma io_bind_Inl: "m w = (w', Inl t) \<Longrightarrow> io_bind m f w = (w', Inl t)"
  by (simp add: io_bind_def)

lemma io_bind_Inr: "m w = (w', Inr x) \<Longrightarrow> io_bind m f w = f x w'"
  by (simp add: io_bind_def)

lemma checkTenNetwork_wrong:
  assumes "prov (requests w) eth_chainId = Inr r"
    and "parseInt16 (js_String r) \<noteq> Some (TEN_CHAIN_ID cfg)"
  shows "checkTenNetwork cfg prov w = (w\<lparr>requests := requests w @ [eth_chainId]\<rparr>, Inl (Thrown WrongNetwork))"
  using assms by (simp add: checkTenNetwork_def io_bind_def request_def io_throw_def Let_def)

lemma checkTenNetwork_right:
  assumes "prov (requests w) eth_chainId = Inr r"
    and "parseInt16 (js_String r) = Some (TEN_CHAIN_ID cfg)"
  shows "checkTenNetwork cfg prov w = (w\<lparr>requests := requests w @ [eth_chainId]\<rparr>, Inr ())"
  using assms by (simp add: checkTenNetwork_def io_bind_def request_def io_return_def Let_def)

lemma guarded_wrong:
  assumes "prov (requests w) eth_chainId = Inr r"
    and "parseInt16 (js_String r) \<noteq> Some (TEN_CHAIN_ID cfg)"
  shows "catch_update msg (io_bind (io_update u) (\<lambda>_. io_bind (checkTenNetwork cfg prov) f) w)
       = (updateState (no_updates\<lparr>upd_error := Some (Some WrongNetwork), upd_isLoading := Some False\<rparr>)
            ((updateState u w)\<lparr>requests := requests w @ [eth_chainId]\<rparr>), Inl WrongNetwork)"
proof -
  have "checkTenNetwork cfg prov (updateState u w) =
          ((updateState u w)\<lparr>requests := requests w @ [eth_chainId]\<rparr>, Inl (Thrown WrongNetwork))"
    using checkTenNetwork_wrong[of prov "updateState u w" r cfg] assms
    by (simp add: requests_updateState)
  then show ?thesis
    by (simp add: io_bind_update io_bind_Inl catch_update_def)
qed

lemma state_request: "state (fst (request prov c w)) = state w"
  by (simp add: request_def)

lemma sessionKey_updateState:
  "sessionKey (state (updateState u w)) = (case upd_sessionKey u of None \<Rightarrow> sessionKey (state w) | Some v \<Rightarrow> v)"
  by (simp add: updateState_def merge_def Let_def)

lemma error_updateState:
  "error (state (updateState u w)) = (case upd_error u of None \<Rightarrow> error (state w) | Some v \<Rightarrow> v)"
  by (simp add: updateState_def merge_def Let_def)

section \<open>The network check\<close>

text \<open>
  C5. When the provider reports a chain identifier other than \<open>TEN_CHAIN_ID\<close>, each of
  create, fund, activate, deactivate, delete, cleanup and \<open>sendTransaction\<close> (both
  versions) fails with the wrong-network error, and the only request it has made is the
  chain-id query: no \<open>eth_getStorageAt\<close> call is issued.
\<close>

theorem wrong_network_fails_before_actuation:
  assumes "prov (requests w) eth_chainId = Inr r"
    and "parseInt16 (js_String r) \<noteq> Some (TEN_CHAIN_ID cfg)"
  shows "(snd (createSessionKey cfg prov w) = Inl WrongNetwork
           \<and> requests (fst (createSessionKey cfg prov w)) = requests w @ [eth_chainId])
       \<and> (\<exists>w'. fundSessionKey cfg a amount prov user w = Some (w', Inl WrongNetwork)
               \<and> requests w' = requests w @ [eth_chainId])
       \<and> (snd (activateSessionKey cfg prov w) = Inl WrongNetwork
           \<and> requests (fst (activateSessionKey cfg prov w)) = requests w @ [eth_chainId])
       \<and> (snd (deactivateSessionKey cfg prov w) = Inl WrongNetwork
           \<and> requests (fst (deactivateSessionKey cfg prov w)) = requests w @ [eth_chainId])
       \<and> (snd (deleteSessionKey cfg prov w) = Inl WrongNetwork
           \<and> requests (fst (deleteSessionKey cfg prov w)) = requests w @ [eth_chainId])
       \<and> (snd (cleanupSessionKey cfg prov w) = Inl WrongNetwork
           \<and> requests (fst (cleanupSessionKey cfg prov w)) = requests w @ [eth_chainId])
       \<and> (snd (sendTransaction cfg txParams prov w) = Inl WrongNetwork
           \<and> requests (fst (sendTransaction cfg txParams prov w)) = requests w @ [eth_chainId])
       \<and> (snd (sendTransaction_v2 cfg txParams prov w) = Inl WrongNetwork
           \<and> requests (fst (sendTransaction_v2 cfg txParams prov w)) = requests w @ [eth_chainId])"
proof -
  note g = guarded_wrong[of prov w r cfg, OF assms]
  have create: "snd (createSessionKey cfg prov w) = Inl WrongNetwork
           \<and> requests (fst (createSessionKey cfg prov w)) = requests w @ [eth_chainId]"
  proof -
    let ?w1 = "(updateState loading w)\<lparr>providerCleanup := True\<rparr>"
    have "checkTenNetwork cfg prov ?w1 = (?w1\<lparr>requests := requests w @ [eth_chainId]\<rparr>, Inl (Thrown WrongNetwork))"
      using checkTenNetwork_wrong[of prov ?w1 r cfg] assms by (simp add: requests_updateState)
    then show ?thesis
      by (simp add: createSessionKey_def io_bind_update io_bind_setup io_bind_Inl
            catch_update_def requests_updateState)
  qed
  have fund: "\<exists>w'. fundSessionKey cfg a amount prov user w = Some (w', Inl WrongNetwork)
               \<and> requests w' = requests w @ [eth_chainId]"
  proof -
    have "checkTenNetwork cfg prov (updateState loading w) =
          ((updateState loading w)\<lparr>requests := requests w @ [eth_chainId]\<rparr>, Inl (Thrown WrongNetwork))"
      using checkTenNetwork_wrong[of prov "updateState loading w" r cfg] assms
      by (simp add: requests_updateState)
    then show ?thesis
      by (simp add: fundSessionKey_def io_bind_update io_bind_Inl catch_update_def requests_updateState)
  qed
  show ?thesis
    using create fund
    by (simp add: activateSessionKey_def deactivateSessionKey_def deleteSessionKey_def
          cleanupSessionKey_def sendTransaction_def sendTransaction_v2_def
          sendTransaction_with_def g requests_updateState)
qed

theorem wrong_network_fails_before_actuation_witness:
  "provider_mainnet (requests fresh_world) eth_chainId = Inr (RString ''0x1'')
   \<and> parseInt16 (js_String (RString ''0x1'')) \<noteq> Some (TEN_CHAIN_ID example_constants)
   \<and> snd (activateSessionKey example_constants provider_mainnet fresh_world) = Inl WrongNetwork
   \<and> requests (fst (activateSessionKey example_constants provider_mainnet fresh_world))
       = [eth_chainId]
   \<and> snd (sendTransaction example_constants example_tx provider_mainnet fresh_world)
       = Inl WrongNetwork"
proof -
  have h1: "provider_mainnet (requests fresh_world) eth_chainId = Inr (RString ''0x1'')"
    by (simp add: provider_mainnet_def)
  have h2: "parseInt16 (js_String (RString ''0x1'')) \<noteq> Some (TEN_CHAIN_ID example_constants)"
    by code_simp
  have r: "requests fresh_world = []"
    by (simp add: fresh_world_def init_world_def)
  show ?thesis
    using h1 h2 wrong_network_fails_before_actuation[of provider_mainnet fresh_world
        "RString ''0x1''" example_constants "''0xaa''" "''1''" "''0xbb''" example_tx, OF h1 h2]
    by (simp add: r)
qed

section \<open>Cleanup stops at the first failure\<close>

text \<open>
  C6. When \<open>cleanupSessionKey\<close> runs on the target chain and the deactivate call is
  rejected, the delete call is not issued (the requests made are the chain-id query and
  the deactivate call, nothing else), the call fails with the rejected error (or with
  \<open>Error('Cleanup failed')\<close> when the rejected value is not an \<open>Error\<close>), the same error
  is in the state's \<open>error\<close> field, and \<open>sessionKey\<close> and \<open>isActive\<close> are as at entry.
\<close>

theorem cleanup_stops_when_deactivate_fails:
  assumes chain: "prov (requests w) eth_chainId = Inr r"
      "parseInt16 (js_String r) = Some (TEN_CHAIN_ID cfg)"
    and fails: "prov (requests w @ [eth_chainId])
                  (eth_getStorageAt (SESSION_KEY_DEACTIVATE cfg) ''0x0'') = Inl t"
  shows "snd (cleanupSessionKey cfg prov w)
           = Inl (case t of Thrown e \<Rightarrow> e | ThrownOther \<Rightarrow> Error ''Cleanup failed'')
       \<and> error (state (fst (cleanupSessionKey cfg prov w)))
           = Some (case t of Thrown e \<Rightarrow> e | ThrownOther \<Rightarrow> Error ''Cleanup failed'')
       \<and> sessionKey (state (fst (cleanupSessionKey cfg prov w))) = sessionKey (state w)
       \<and> isActive (state (fst (cleanupSessionKey cfg prov w))) = isActive (state w)
       \<and> requests (fst (cleanupSessionKey cfg prov w))
           = requests w @ [eth_chainId, eth_getStorageAt (SESSION_KEY_DEACTIVATE cfg) ''0x0'']"
proof -
  let ?w1 = "updateState loading w"
  let ?w2 = "?w1\<lparr>requests := requests w @ [eth_chainId]\<rparr>"
  let ?d = "eth_getStorageAt (SESSION_KEY_DEACTIVATE cfg) ''0x0''"
  let ?w3 = "?w2\<lparr>requests := requests w @ [eth_chainId, ?d]\<rparr>"
  have c: "checkTenNetwork cfg prov ?w1 = (?w2, Inr ())"
    using checkTenNetwork_right[of prov ?w1 r cfg] chain by (simp add: requests_updateState)
  have d: "request prov ?d ?w2 = (?w3, Inl t)"
    using fails by (simp add: request_def)
  have "cleanupSessionKey cfg prov w = catch_update ''Cleanup failed'' (?w3, Inl t)"
    using c d by (simp add: cleanupSessionKey_def io_bind_update io_bind_Inr io_bind_Inl)
  then show ?thesis
    by (simp add: catch_update_def Let_def sessionKey_updateState error_updateState
          requests_updateState updateState_def merge_def loading_def no_updates_def)
qed

theorem cleanup_stops_when_deactivate_fails_witness:
  "provider_rejecting (requests world_with_key) eth_chainId = Inr (RString ''0x1bb'')
   \<and> parseInt16 (js_String (RString ''0x1bb'')) = Some (TEN_CHAIN_ID example_constants)
   \<and> provider_rejecting (requests world_with_key @ [eth_chainId])
        (eth_getStorageAt (SESSION_KEY_DEACTIVATE example_constants) ''0x0'')
       = Inl (Thrown (Error ''execution reverted''))
   \<and> snd (cleanupSessionKey example_constants provider_rejecting world_with_key)
       = Inl (Error ''execution reverted'')
   \<and> error (state (fst (cleanupSessionKey example_constants provider_rejecting world_with_key)))
       = Some (Error ''execution reverted'')
   \<and> sessionKey (state (fst (cleanupSessionKey example_constants provider_rejecting world_with_key)))
       = Some ''0x00000000000000000000000000000000000000aa''
   \<and> requests (fst (cleanupSessionKey example_constants provider_rejecting world_with_key))
       = [eth_chainId, eth_getStorageAt ''0x04'' ''0x0'']"
proof -
  have h1: "provider_rejecting (requests world_with_key) eth_chainId = Inr (RString ''0x1bb'')"
    by (simp add: provider_rejecting_def)
  have h2: "parseInt16 (js_String (RString ''0x1bb'')) = Some (TEN_CHAIN_ID example_constants)"
    by code_simp
  have h3: "provider_rejecting (requests world_with_key @ [eth_chainId])
        (eth_getStorageAt (SESSION_KEY_DEACTIVATE example_constants) ''0x0'')
       = Inl (Thrown (Error ''execution reverted''))"
    by (simp add: provider_rejecting_def)
  have w: "requests world_with_key = []"
     "sessionKey (state world_with_key) = Some ''0x00000000000000000000000000000000000000aa''"
    by (simp_all add: world_with_key_def init_world_def load_state_def initial_state_def)
  have c: "SESSION_KEY_DEACTIVATE example_constants = ''0x04''"
    by (simp add: example_constants_def)
  show ?thesis
    using h1 h2 h3 cleanup_stops_when_deactivate_fails[of provider_rejecting world_with_key
        "RString ''0x1bb''" example_constants "Thrown (Error ''execution reverted'')", OF h1 h2 h3]
    by (simp add: w c)
qed

section \<open>Merging partial updates\<close>

lemma state_updateState: "state (updateState u w) = merge (state w) u"
  by (simp add: updateState_def Let_def)

lemma merge_unnamed: "named u f = None \<Longrightarrow> field_of f (merge s u) = field_of f s"
  by (cases f) (simp_all add: merge_def)

lemma merge_named: "named u f = Some v \<Longrightarrow> field_of f (merge s u) = v"
  by (cases f) (auto simp: merge_def)

lemma updateState_all_snoc:
  "updateState_all (us @ [u]) w = updateState u (updateState_all us w)"
  by (simp add: updateState_all_def)

lemma updateState_all_unnamed:
  "(\<forall>u \<in> set us. named u f = None) \<Longrightarrow>
     field_of f (state (updateState_all us w)) = field_of f (state w)"
proof (induction us rule: rev_induct)
  case Nil
  show ?case by (simp add: updateState_all_def)
next
  case (snoc u us)
  then show ?case
    by (simp add: updateState_all_snoc state_updateState merge_unnamed)
qed

lemma updateState_all_last_writer:
  assumes "i < length us" "named (us ! i) f = Some v"
    and "\<forall>j < length us. i < j \<longrightarrow> named (us ! j) f = None"
  shows "field_of f (state (updateState_all us w)) = v"
  using assms
proof (induction us rule: rev_induct)
  case Nil
  then show ?case by simp
next
  case (snoc u us)
  show ?case
  proof (cases "i = length us")
    case True
    with snoc.prems(2) have "named u f = Some v" by simp
    then show ?thesis
      by (simp add: updateState_all_snoc state_updateState merge_named)
  next
    case False
    with snoc.prems(1) have i: "i < length us" by simp
    have u: "named u f = None"
      using snoc.prems(3)[rule_format, of "length us"] i by simp
    have "named (us ! i) f = Some v" using snoc.prems(2) i by (simp add: nth_append)
    moreover have "\<forall>j < length us. i < j \<longrightarrow> named (us ! j) f = None"
    proof (intro allI impI)
      fix j assume "j < length us" "i < j"
      then show "named (us ! j) f = None"
        using snoc.prems(3)[rule_format, of j] by (simp add: nth_append)
    qed
    ultimately have "field_of f (state (updateState_all us w)) = v"
      using snoc.IH i by blast
    then show ?thesis
      by (simp add: updateState_all_snoc state_updateState merge_unnamed u)
  qed
qed

lemma field_cases: "f \<in> {F_sessionKey, F_isActive, F_balance, F_isLoading, F_error}"
  by (cases f) simp_all

text \<open>
  C9. \<open>updateState\<close> with a partial record leaves every field the partial does not name
  as it was and gives every named field the partial's value. Hence after a sequence of
  updates that name pairwise-disjoint fields, every field some update named holds the
  value that update wrote, and every field no update named holds its initial value.
\<close>

theorem updateState_keeps_unnamed_fields:
  "(named u f = None \<longrightarrow> field_of f (state (updateState u w)) = field_of f (state w))
   \<and> (\<forall>v. named u f = Some v \<longrightarrow> field_of f (state (updateState u w)) = v)
   \<and> (disjoint_fields us \<longrightarrow>
        (\<forall>i < length us. \<forall>g v. named (us ! i) g = Some v \<longrightarrow>
            field_of g (state (updateState_all us w)) = v)
      \<and> (\<forall>g. (\<forall>u' \<in> set us. named u' g = None) \<longrightarrow>
            field_of g (state (updateState_all us w)) = field_of g (state w)))"
proof (intro conjI allI impI)
  assume "named u f = None"
  then show "field_of f (state (updateState u w)) = field_of f (state w)"
    by (simp add: state_updateState merge_unnamed)
next
  fix v assume "named u f = Some v"
  then show "field_of f (state (updateState u w)) = v"
    by (simp add: state_updateState merge_named)
next
  fix i g v
  assume d: "disjoint_fields us" and i: "i < length us" and n: "named (us ! i) g = Some v"
  have "\<forall>j < length us. i < j \<longrightarrow> named (us ! j) g = None"
  proof (intro allI impI)
    fix j assume j: "j < length us" "i < j"
    then have "named (us ! i) g = None \<or> named (us ! j) g = None"
      using d i field_cases[of g] unfolding disjoint_fields_def by (metis less_not_refl)
    then show "named (us ! j) g = None" using n by simp
  qed
  then show "field_of g (state (updateState_all us w)) = v"
    using updateState_all_last_writer[OF i n] by blast
next
  fix g
  assume "\<forall>u' \<in> set us. named u' g = None"
  then show "field_of g (state (updateState_all us w)) = field_of g (state w)"
    by (rule updateState_all_unnamed)
qed


theorem updateState_keeps_unnamed_fields_witness:
  "named (no_updates\<lparr>upd_isLoading := Some True\<rparr>) F_sessionKey = None
   \<and> disjoint_fields example_updates
   \<and> field_of F_sessionKey (state (updateState (no_updates\<lparr>upd_isLoading := Some True\<rparr>)
         world_with_key)) = field_of F_sessionKey (state world_with_key)
   \<and> field_of F_isLoading (state (updateState_all example_updates fresh_world)) = V_bool True
   \<and> field_of F_sessionKey (state (updateState_all example_updates fresh_world))
       = V_sessionKey (Some ''0xaa'')
   \<and> field_of F_isActive (state (updateState_all example_updates fresh_world)) = V_bool True
   \<and> field_of F_balance (state (updateState_all example_updates fresh_world))
       = field_of F_balance (state fresh_world)"
proof -
  have h: "named (no_updates\<lparr>upd_isLoading := Some True\<rparr>) F_sessionKey = None"
    by (simp add: no_updates_def)
  have d: "disjoint_fields example_updates"
    unfolding disjoint_fields_def example_updates_def
    by (auto simp: no_updates_def less_Suc_eq)
  note one = updateState_keeps_unnamed_fields[of "no_updates\<lparr>upd_isLoading := Some True\<rparr>"
      F_sessionKey world_with_key example_updates]
  note all = updateState_keeps_unnamed_fields[of "no_updates\<lparr>upd_isLoading := Some True\<rparr>"
      F_sessionKey fresh_world example_updates]
  from one h have a: "field_of F_sessionKey
      (state (updateState (no_updates\<lparr>upd_isLoading := Some True\<rparr>) world_with_key))
        = field_of F_sessionKey (state world_with_key)"
    by blast
  from all d have w: "\<forall>i < length example_updates. \<forall>g v. named (example_updates ! i) g = Some v \<longrightarrow>
            field_of g (state (updateState_all example_updates fresh_world)) = v"
    and k: "\<forall>g. (\<forall>u' \<in> set example_updates. named u' g = None) \<longrightarrow>
            field_of g (state (updateState_all example_updates fresh_world))
              = field_of g (state fresh_world)"
    by blast+
  have b: "field_of F_isLoading (state (updateState_all example_updates fresh_world)) = V_bool True"
    using w[rule_format, of 0 F_isLoading "V_bool True"]
    by (simp add: example_updates_def no_updates_def)
  have c: "field_of F_sessionKey (state (updateState_all example_updates fresh_world))
       = V_sessionKey (Some ''0xaa'')"
    using w[rule_format, of 1 F_sessionKey "V_sessionKey (Some ''0xaa'')"]
    by (simp add: example_updates_def no_updates_def)
  have e: "field_of F_isActive (state (updateState_all example_updates fresh_world)) = V_bool True"
    using w[rule_format, of 2 F_isActive "V_bool True"]
    by (simp add: example_updates_def no_updates_def)
  have f: "field_of F_balance (state (updateState_all example_updates fresh_world))
       = field_of F_balance (state fresh_world)"
  proof -
    have "\<forall>u' \<in> set example_updates. named u' F_balance = None"
      by (simp add: example_updates_def no_updates_def)
    with k show ?thesis by blast
  qed
  show ?thesis using h d a b c e f by blast
qed

section \<open>Subscribers\<close>

lemma count_list_set_add:
  "distinct xs \<Longrightarrow> count_list (set_add x xs) x = 1"
proof (cases "x \<in> set xs")
  case True
  assume "distinct xs"
  then have "count_list xs x = 1" using True
    by (induction xs) (auto simp: count_list_0_iff)
  then show ?thesis using True by (simp add: set_add_def)
next
  case False
  then have "count_list xs x = 0" by (simp add: count_list_0_iff)
  then show ?thesis using False by (simp add: set_add_def)
qed

lemma set_add_idem: "set_add x (set_add x xs) = set_add x xs"
  by (simp add: set_add_def)

lemma distinct_set_add: "distinct xs \<Longrightarrow> distinct (set_add x xs)"
  by (simp add: set_add_def)

lemma distinct_set_delete: "distinct xs \<Longrightarrow> distinct (set_delete x xs)"
  by (simp add: set_delete_def distinct_removeAll)

lemma deliveries_updateState:
  "deliveries c (updateState u w) = deliveries c w + count_list (subscribers w) c"
proof -
  have "length (filter (\<lambda>p. fst p = c) (map (\<lambda>callback. (callback, s)) xs)) = count_list xs c" for s :: SessionKeyState and xs
    by (induction xs) auto
  then show ?thesis
    by (simp add: deliveries_def updateState_def Let_def)
qed

text \<open>
  C10. Subscribing the same callback twice leaves one registration: the second call does
  not change the subscriber set, the callback is in it once and is invoked once by the
  next \<open>updateState\<close>. Either of the two unsubscribe closures removes the callback and
  nothing else, and calling a closure again, or the other one after it, changes nothing.
\<close>

theorem subscribe_same_callback_twice:
  assumes "distinct (subscribers w)"
  shows "(let w1 = fst (subscribeToState cb w); unsub1 = snd (subscribeToState cb w);
              w2 = fst (subscribeToState cb w1); unsub2 = snd (subscribeToState cb w1)
          in subscribers w2 = subscribers w1
           \<and> count_list (subscribers w2) cb = 1
           \<and> deliveries cb (updateState u w2) = deliveries cb w2 + 1
           \<and> cb \<notin> set (subscribers (unsub1 w2))
           \<and> cb \<notin> set (subscribers (unsub2 w2))
           \<and> set (subscribers (unsub1 w2)) = set (subscribers w) - {cb}
           \<and> set (subscribers (unsub2 w2)) = set (subscribers w) - {cb}
           \<and> unsub1 (unsub1 w2) = unsub1 w2
           \<and> unsub2 (unsub2 w2) = unsub2 w2
           \<and> unsub1 (unsub2 w2) = unsub2 w2
           \<and> unsub2 (unsub1 w2) = unsub1 w2)"
proof -
  have c: "count_list (set_add cb (subscribers w)) cb = 1"
    using assms by (rule count_list_set_add)
  have s: "set (set_delete cb (set_add cb (subscribers w))) = set (subscribers w) - {cb}"
    by (auto simp: set_delete_def set_add_def)
  have i: "set_delete cb (set_delete cb xs) = set_delete cb xs" for xs
    by (simp add: set_delete_def)
  show ?thesis
    unfolding Let_def
    by (simp add: subscribeToState_def set_add_idem c s i deliveries_updateState)
qed

theorem subscribe_same_callback_twice_witness:
  "distinct (subscribers fresh_world)
   \<and> subscribers (fst (subscribeToState 7 (fst (subscribeToState 7 fresh_world)))) = [7]
   \<and> deliveries 7 (updateState loading
         (fst (subscribeToState 7 (fst (subscribeToState 7 fresh_world))))) = 1
   \<and> subscribers (snd (subscribeToState 7 fresh_world)
         (fst (subscribeToState 7 (fst (subscribeToState 7 fresh_world))))) = []"
proof -
  have d: "distinct (subscribers fresh_world)"
    by (simp add: fresh_world_def init_world_def)
  have e: "subscribers fresh_world = []" "notified fresh_world = []"
    by (simp_all add: fresh_world_def init_world_def)
  show ?thesis
    using d subscribe_same_callback_twice[OF d, of 7 loading]
    by (simp add: Let_def subscribeToState_def set_add_def set_delete_def e deliveries_def)
qed

section \<open>Runs of \<open>sendTransaction\<close>\<close>

lemmas io_simps = io_bind_def io_return_def io_throw_def io_update_def request_def
  checkTenNetwork_def requests_updateState

lemma catch_update_Inr: "catch_update msg (w, Inr v) = (w, Inr v)"
  by (simp add: catch_update_def)

lemma isActive_updateState:
  "isActive (state (updateState u w)) = (case upd_isActive u of None \<Rightarrow> isActive (state w) | Some v \<Rightarrow> v)"
  by (simp add: updateState_def merge_def Let_def)

lemma no_updates_fields:
  "upd_sessionKey no_updates = None" "upd_isActive no_updates = None"
  "upd_balance no_updates = None" "upd_isLoading no_updates = None" "upd_error no_updates = None"
  by (simp_all add: no_updates_def)

lemma loading_fields:
  "upd_sessionKey loading = None" "upd_isActive loading = None" "upd_balance loading = None"
  by (simp_all add: loading_def no_updates_def)

lemma getSessionKey_loading:
  "getSessionKey (updateState loading w\<lparr>requests := rs\<rparr>) = sessionKey (state w)"
  by (simp add: getSessionKey_def sessionKey_updateState loading_def no_updates_def)

lemma sendTransaction_with_explicit_fees:
  assumes c1: "prov (requests w) eth_chainId = Inr r1"
      "parseInt16 (js_String r1) = Some (TEN_CHAIN_ID cfg)"
    and k: "sessionKey (state w) = Some a" "a \<noteq> []"
    and c2: "prov (requests w @ [eth_chainId]) eth_chainId = Inr r2"
    and n: "tx_nonce txParams = Some n"
    and f: "tx_maxFeePerGas txParams = Some mf" "mf \<noteq> []" "BigInt_of_string mf = Some maxFee"
    and p: "tx_maxPriorityFeePerGas txParams = Some mp" "mp \<noteq> []"
      "BigInt_of_string mp = Some maxPrio"
    and g: "tx_gasLimit txParams = Some gl" "gl \<noteq> 0"
    and b: "build (parseInt16 (js_String r2)) (Some n) maxPrio maxFee (Some gl) txParams = Inr arr"
    and e: "rlpEncode arr = Some bytes"
    and s: "prov (requests w @ [eth_chainId, eth_chainId])
              (eth_getStorageAt (SESSION_KEY_EXECUTE cfg)
                 (btoa_bytes (2 # hexToBytes (''0x'' @ bytes_hex bytes)))) = Inr h"
  shows "snd (sendTransaction_with fees build cfg txParams prov w) = Inr h
       \<and> requests (fst (sendTransaction_with fees build cfg txParams prov w))
          = requests w @ [eth_chainId, eth_chainId,
               eth_getStorageAt (SESSION_KEY_EXECUTE cfg)
                 (btoa_bytes (2 # hexToBytes (''0x'' @ bytes_hex bytes)))]
       \<and> isActive (state (fst (sendTransaction_with fees build cfg txParams prov w)))
          = isActive (state w)"
  unfolding sendTransaction_with_def
  using assms
  by (simp add: io_simps Let_def truthy_string_def BigInt_of_def tx_base64_def
        catch_update_Inr isActive_updateState getSessionKey_loading loading_fields
        no_updates_fields)

lemma sendTransaction_fee_history_rejected:
  assumes c1: "prov (requests w) eth_chainId = Inr r1"
      "parseInt16 (js_String r1) = Some (TEN_CHAIN_ID cfg)"
    and k: "sessionKey (state w) = Some a" "a \<noteq> []"
    and c2: "prov (requests w @ [eth_chainId]) eth_chainId = Inr r2"
    and n: "tx_nonce txParams = Some n"
    and f: "tx_maxFeePerGas txParams = None"
    and h: "prov (requests w @ [eth_chainId, eth_chainId])
              (eth_feeHistory (FEE_HISTORY_BLOCKS cfg) (PRIORITY_FEE_PERCENTILES cfg)) = Inl t"
  shows "snd (sendTransaction cfg txParams prov w)
           = Inl (case t of Thrown e \<Rightarrow> e | ThrownOther \<Rightarrow> Error ''Transaction failed'')
       \<and> requests (fst (sendTransaction cfg txParams prov w))
           = requests w @ [eth_chainId, eth_chainId,
               eth_feeHistory (FEE_HISTORY_BLOCKS cfg) (PRIORITY_FEE_PERCENTILES cfg)]"
  unfolding sendTransaction_def sendTransaction_with_def
  using assms
  by (simp add: io_simps Let_def truthy_string_def calculateGasFees_def catch_update_def
        getSessionKey_loading)

lemma calculateGasFees_v2_fallback:
  assumes "prov (requests w) (eth_feeHistory 1 []) = Inl t"
    and "scaled_floor cfg p 1000000000 = Some b"
  shows "calculateGasFees_v2 cfg prov p w
           = (w\<lparr>requests := requests w @ [eth_feeHistory 1 []]\<rparr>, Inr (b + 100000000, 100000000))"
  using assms
  by (simp add: calculateGasFees_v2_def fallback_fees_def scaled_def io_simps Let_def)

lemma sendTransaction_v2_fallback:
  assumes c1: "prov (requests w) eth_chainId = Inr r1"
      "parseInt16 (js_String r1) = Some (TEN_CHAIN_ID cfg)"
    and k: "sessionKey (state w) = Some a" "a \<noteq> []"
    and c2: "prov (requests w @ [eth_chainId]) eth_chainId = Inr r2"
    and n: "tx_nonce txParams = Some n"
    and f: "tx_maxFeePerGas txParams = None"
    and h: "prov (requests w @ [eth_chainId, eth_chainId]) (eth_feeHistory 1 []) = Inl t"
    and m: "scaled_floor cfg MEDIUM 1000000000 = Some b"
    and g: "tx_gasLimit txParams = None"
      "prov (requests w @ [eth_chainId, eth_chainId, eth_feeHistory 1 []])
         (eth_estimateGas (tx_to txParams) (tx_data txParams)
            (or_default (tx_value txParams) ''0x0'') a) = Inr rg"
    and arr: "txArray_v2 (parseInt16 (js_String r2)) (Some n) 100000000 (b + 100000000)
                (parseInt16 (js_String rg)) txParams = Inr arr"
    and e: "rlpEncode arr = Some bytes"
    and s: "prov (requests w @ [eth_chainId, eth_chainId, eth_feeHistory 1 [],
                    eth_estimateGas (tx_to txParams) (tx_data txParams)
                      (or_default (tx_value txParams) ''0x0'') a])
              (eth_getStorageAt (SESSION_KEY_EXECUTE cfg)
                 (btoa_bytes (2 # hexToBytes (''0x'' @ bytes_hex bytes)))) = Inr txHash"
  shows "snd (sendTransaction_v2 cfg txParams prov w) = Inr txHash
       \<and> requests (fst (sendTransaction_v2 cfg txParams prov w))
          = requests w @ [eth_chainId, eth_chainId, eth_feeHistory 1 [],
               eth_estimateGas (tx_to txParams) (tx_data txParams)
                 (or_default (tx_value txParams) ''0x0'') a,
               eth_getStorageAt (SESSION_KEY_EXECUTE cfg)
                 (btoa_bytes (2 # hexToBytes (''0x'' @ bytes_hex bytes)))]"
proof -
  let ?w3 = "updateState loading w\<lparr>requests := requests w @ [eth_chainId, eth_chainId]\<rparr>"
  have fees: "calculateGasFees_v2 cfg prov MEDIUM ?w3
      = (?w3\<lparr>requests := requests w @ [eth_chainId, eth_chainId, eth_feeHistory 1 []]\<rparr>,
         Inr (b + 100000000, 100000000))"
    using calculateGasFees_v2_fallback[of prov ?w3 t cfg MEDIUM b] h m by simp
  show ?thesis
    unfolding sendTransaction_v2_def sendTransaction_with_def
    using c1 k c2 n f g arr e s
    by (simp add: io_simps Let_def truthy_string_def tx_base64_def fees
          catch_update_Inr getSessionKey_loading)
qed

section \<open>Values at the concrete inputs\<close>

lemmas toHex_eval = toHex_def bigint_toString_def nat_to_radix.simps digit_char_def

lemmas parse_eval = parseInt16_def js_String_def is_ws_def startsWith_def is_radix_digit_def
  digit_val_def digits_value_def BigInt_of_string_def trim_def parse_digits_def

lemmas rlp_eval = rlp_encode_item_def rlp_toBytes_def startsWith_def padToEven_def digit_val_def
  rlp_encode_bytes_def rlp_encodeLength_def

lemma toHex_values:
  "toHex 443 = ''0x1bb''" "toHex 0 = ''0x0''" "toHex 100000000 = ''0x5f5e100''"
  "toHex 1300000000 = ''0x4d7c6d00''" "toHex 21000 = ''0x5208''"
  "toHex 1000000000 = ''0x3b9aca00''" "toHex 20000000000 = ''0x4a817c800''"
  "toHex 100000 = ''0x186a0''"
  by (simp_all add: toHex_eval)

lemma example_tx_tail:
  "tx_tail example_tx =
     [Str ''0xabcd000000000000000000000000000000000001'', Str ''0x0'', Str ''0x'',
      EmptyList, Str ''0x'', Str ''0x'', Str ''0x'']"
  "tx_tail example_tx_with_fees =
     [Str ''0xabcd000000000000000000000000000000000001'', Str ''0x0'', Str ''0x'',
      EmptyList, Str ''0x'', Str ''0x'', Str ''0x'']"
  by (simp_all add: tx_tail_def example_tx_def example_tx_with_fees_def toLowerCase_def
        lower_char_def or_default_def)

lemma example_txArray:
  "txArray (Some 443) (Some 0) 100000000 1300000000 (Some 21000) example_tx
     = Inr [Str ''0x1bb'', Str ''0x0'', Str ''0x5f5e100'', Str ''0x4d7c6d00'', Str ''0x5208'',
            Str ''0xabcd000000000000000000000000000000000001'', Str ''0x0'', Str ''0x'',
            EmptyList, Str ''0x'', Str ''0x'', Str ''0x'']"
  by (simp add: txArray_def toHex_number_def toHex_values example_tx_tail ensure_0x_def
        startsWith_def)

lemma example_txArray_v2:
  "txArray_v2 (Some 443) (Some 0) 100000000 1300000000 (Some 21000) example_tx
     = Inr [Str ''0x1bb'', Str ''0x'', Str ''0x5f5e100'', Str ''0x4d7c6d00'', Str ''0x5208'',
            Str ''0xabcd000000000000000000000000000000000001'', Str ''0x0'', Str ''0x'',
            EmptyList, Str ''0x'', Str ''0x'', Str ''0x'']"
  by (simp add: txArray_v2_def toHex_number_def toHex_values example_tx_tail ensure_0x_def
        startsWith_def)

lemma example_txArray_with_fees:
  "txArray (Some 443) (Some 0) 1000000000 20000000000 (Some 100000) example_tx_with_fees
     = Inr [Str ''0x1bb'', Str ''0x0'', Str ''0x3b9aca00'', Str ''0x4a817c800'', Str ''0x186a0'',
            Str ''0xabcd000000000000000000000000000000000001'', Str ''0x0'', Str ''0x'',
            EmptyList, Str ''0x'', Str ''0x'', Str ''0x'']"
  by (simp add: txArray_def toHex_number_def toHex_values example_tx_tail ensure_0x_def
        startsWith_def)

lemma rlp_item_values:
  "rlp_encode_item (Str ''0x1bb'') = Some [130, 1, 187]"
  "rlp_encode_item (Str ''0x0'') = Some [0]"
  "rlp_encode_item (Str ''0x'') = Some [128]"
  "rlp_encode_item EmptyList = Some [192]"
  "rlp_encode_item (Str ''0x5f5e100'') = Some [132, 5, 245, 225, 0]"
  "rlp_encode_item (Str ''0x4d7c6d00'') = Some [132, 77, 124, 109, 0]"
  "rlp_encode_item (Str ''0x5208'') = Some [130, 82, 8]"
  "rlp_encode_item (Str ''0x3b9aca00'') = Some [132, 59, 154, 202, 0]"
  "rlp_encode_item (Str ''0x4a817c800'') = Some [133, 4, 168, 23, 200, 0]"
  "rlp_encode_item (Str ''0x186a0'') = Some [131, 1, 134, 160]"
  "rlp_encode_item (Str ''0xabcd000000000000000000000000000000000001'')
     = Some [148, 171, 205, 0, 0, 0, 0, 0, 0, 0, 0, 0, 0, 0, 0, 0, 0, 0, 0, 0, 1]"
  by (simp_all add: rlp_eval)

lemma example_parse:
  "parseInt16 (js_String (RString ''0x1bb'')) = Some 443"
  "parseInt16 (js_String (RString ''0x5208'')) = Some 21000"
  "BigInt_of_string ''20000000000'' = Some 20000000000"
  "BigInt_of_string ''1000000000'' = Some 1000000000"
  by (simp_all add: parse_eval)

lemma world_with_key_fields:
  "requests world_with_key = []"
  "sessionKey (state world_with_key) = Some ''0x00000000000000000000000000000000000000aa''"
  "isActive (state world_with_key) = False"
  by (simp_all add: world_with_key_def init_world_def load_state_def initial_state_def)

lemma example_constants_fields:
  "TEN_CHAIN_ID example_constants = 443" "SESSION_KEY_EXECUTE example_constants = ''0x06''"
  "FEE_HISTORY_BLOCKS example_constants = 10"
  "PRIORITY_FEE_PERCENTILES example_constants = [25, 50, 75]"
  "scaled_floor example_constants MEDIUM 1000000000 = Some 1200000000"
  by (simp_all add: example_constants_def)

lemma example_tx_fields:
  "tx_nonce example_tx = Some 0" "tx_maxFeePerGas example_tx = None"
  "tx_gasLimit example_tx = None" "tx_value example_tx = None"
  "tx_to example_tx = ''0xAbCd000000000000000000000000000000000001''"
  "tx_data example_tx = ''0x''"
  "tx_nonce example_tx_with_fees = Some 0"
  "tx_maxFeePerGas example_tx_with_fees = Some ''20000000000''"
  "tx_maxPriorityFeePerGas example_tx_with_fees = Some ''1000000000''"
  "tx_gasLimit example_tx_with_fees = Some 100000"
  by (simp_all add: example_tx_def example_tx_with_fees_def)

section \<open>A negative amount\<close>

lemma negative_amount_parse:
  "parseEther ''-0.05'' = Some (- 50000000000000000)"
proof -
  have rep: "replicate 16 CHR ''0'' = ''0000000000000000''"
    by (simp add: eval_nat_numeral)
  have pad: "take 18 (padEnd 18 CHR ''0'' ''05'') = ''050000000000000000''"
    unfolding padEnd_def by (simp add: rep)
  have sp: "split_on CHR ''.'' ''-0.05'' = [''-0'', ''05'']"
    by simp
  have "BigInt_of_string ''-0050000000000000000'' = Some (- 50000000000000000)"
    by (simp add: parse_eval)
  then show ?thesis
    unfolding parseEther_def sp by (simp add: pad)
qed

lemma negative_amount_text:
  "bigint_toString 10 (- 50000000000000000) = ''-50000000000000000''"
  by (simp add: bigint_toString_def nat_to_radix.simps digit_char_def)

lemma negative_amount_format:
  "formatEther id (- 50000000000000000) = Some 0"
proof -
  have "parseFloat_exact ''0.-50000000000000000'' = Some 0"
    by (simp add: parseFloat_exact_def is_ws_def startsWith_def is_radix_digit_def digit_val_def
          digits_value_def)
  then show ?thesis
    unfolding formatEther_def negative_amount_text
    by (simp add: padStart_def parseFloat_def)
qed

lemma negative_amount_value:
  "parseFloat id ''-0.05'' = Some (- (1 / 20))"
  by (simp add: parseFloat_def parseFloat_exact_def is_ws_def startsWith_def is_radix_digit_def
        digit_val_def digits_value_def)

text \<open>
  A signed amount below one ether in magnitude does not come back: \<open>parseEther('-0.05')\<close> is
  \<open>-50000000000000000\<close>, whose text has 18 characters, so \<open>formatEther\<close> builds
  \<open>'0.-50000000000000000'\<close>, which \<open>parseFloat\<close> reads as 0.
\<close>

theorem negative_amount_roundtrip_counterexample:
  "parseEther ''-0.05'' = Some (- 50000000000000000)
   \<and> formatEther id (- 50000000000000000) = Some 0
   \<and> parseFloat id ''-0.05'' = Some (- (1 / 20))
   \<and> Option.bind (parseEther ''-0.05'') (formatEther id) \<noteq> parseFloat id ''-0.05''"
  by (simp add: negative_amount_parse negative_amount_format negative_amount_value)

section \<open>Zero-valued numeric fields\<close>

text \<open>
  C1, at the input \<open>nonce = 0\<close>, \<open>value\<close> absent. In src/core/transaction.ts the nonce
  element is \<open>toHex(0) = '0x0'\<close>, which the encoder reads as the one byte 0 and encodes
  as \<open>0x00\<close>; the empty byte string, written \<open>'0x'\<close>, encodes as \<open>0x80\<close>. The second
  version writes \<open>'0x'\<close> for a zero nonce. In both versions an absent value is \<open>'0x0'\<close>,
  hence \<open>0x00\<close> again. The non-zero fields are minimal big-endian.
\<close>

theorem zero_valued_fields_encode_as_zero_byte:
  "txArray (Some 443) (Some 0) 100000000 1300000000 (Some 21000) example_tx
     = Inr [Str ''0x1bb'', Str ''0x0'', Str ''0x5f5e100'', Str ''0x4d7c6d00'', Str ''0x5208'',
            Str ''0xabcd000000000000000000000000000000000001'', Str ''0x0'', Str ''0x'',
            EmptyList, Str ''0x'', Str ''0x'', Str ''0x'']
   \<and> map rlp_encode_item
         [Str ''0x1bb'', Str ''0x0'', Str ''0x5f5e100'', Str ''0x4d7c6d00'', Str ''0x5208'',
          Str ''0xabcd000000000000000000000000000000000001'', Str ''0x0'', Str ''0x'',
          EmptyList, Str ''0x'', Str ''0x'', Str ''0x'']
     = [Some [130, 1, 187], Some [0], Some [132, 5, 245, 225, 0],
        Some [132, 77, 124, 109, 0], Some [130, 82, 8],
        Some [148, 171, 205, 0, 0, 0, 0, 0, 0, 0, 0, 0, 0, 0, 0, 0, 0, 0, 0, 0, 1],
        Some [0], Some [128], Some [192], Some [128], Some [128], Some [128]]
   \<and> txArray_v2 (Some 443) (Some 0) 100000000 1300000000 (Some 21000) example_tx
     = Inr [Str ''0x1bb'', Str ''0x'', Str ''0x5f5e100'', Str ''0x4d7c6d00'', Str ''0x5208'',
            Str ''0xabcd000000000000000000000000000000000001'', Str ''0x0'', Str ''0x'',
            EmptyList, Str ''0x'', Str ''0x'', Str ''0x'']
   \<and> map rlp_encode_item
         [Str ''0x1bb'', Str ''0x'', Str ''0x5f5e100'', Str ''0x4d7c6d00'', Str ''0x5208'',
          Str ''0xabcd000000000000000000000000000000000001'', Str ''0x0'', Str ''0x'',
          EmptyList, Str ''0x'', Str ''0x'', Str ''0x'']
     = [Some [130, 1, 187], Some [128], Some [132, 5, 245, 225, 0],
        Some [132, 77, 124, 109, 0], Some [130, 82, 8],
        Some [148, 171, 205, 0, 0, 0, 0, 0, 0, 0, 0, 0, 0, 0, 0, 0, 0, 0, 0, 0, 1],
        Some [0], Some [128], Some [192], Some [128], Some [128], Some [128]]"
  by (simp add: example_txArray example_txArray_v2 rlp_item_values)

section \<open>A rejected fee-history query\<close>

text \<open>
  C2, at the input of the scenario: \<open>nonce = 0\<close>, no fee parameters, a provider that
  rejects \<open>eth_feeHistory\<close>. \<open>sendTransaction\<close> of src/core/transaction.ts fails with the
  provider's error after the fee-history request; no transaction is encoded or submitted.
\<close>

theorem fee_history_failure_aborts_sendTransaction:
  "snd (sendTransaction example_constants example_tx provider_no_fee_history world_with_key)
     = Inl (Error ''fee history unavailable'')
   \<and> requests (fst (sendTransaction example_constants example_tx provider_no_fee_history
         world_with_key))
     = [eth_chainId, eth_chainId, eth_feeHistory 10 [25, 50, 75]]"
  using sendTransaction_fee_history_rejected[of provider_no_fee_history world_with_key
      "RString ''0x1bb''" example_constants "''0x00000000000000000000000000000000000000aa''"
      "RString ''0x1bb''" example_tx 0 "Thrown (Error ''fee history unavailable'')"]
  by (simp add: provider_no_fee_history_def example_parse world_with_key_fields
        example_constants_fields example_tx_fields)

section \<open>Sending with a key that is not active\<close>

lemma payload_with_fees:
  "rlpEncode [Str ''0x1bb'', Str ''0x0'', Str ''0x3b9aca00'', Str ''0x4a817c800'', Str ''0x186a0'',
            Str ''0xabcd000000000000000000000000000000000001'', Str ''0x0'', Str ''0x'',
            EmptyList, Str ''0x'', Str ''0x'', Str ''0x'']
    = Some [238, 130, 1, 187, 0, 132, 59, 154, 202, 0, 133, 4, 168, 23, 200, 0, 131,
   1, 134, 160, 148, 171, 205, 0, 0, 0, 0, 0, 0, 0, 0, 0, 0, 0, 0, 0, 0, 0,
   0, 0, 1, 0, 128, 192, 128, 128, 128]"
  by (simp add: rlpEncode_def rlp_item_values rlp_encodeLength_def)

lemma base64_with_fees:
  "btoa_bytes (2 # hexToBytes (''0x'' @ bytes_hex
     [238, 130, 1, 187, 0, 132, 59, 154, 202, 0, 133, 4, 168, 23, 200, 0, 131,
      1, 134, 160, 148, 171, 205, 0, 0, 0, 0, 0, 0, 0, 0, 0, 0, 0, 0, 0, 0, 0,
      0, 0, 1, 0, 128, 192, 128, 128, 128]))
    = ''Au6CAbsAhDuaygCFBKgXyACDAYaglKvNAAAAAAAAAAAAAAAAAAAAAAABAIDAgICA''"
proof -
  have bh: "bytes_hex [238, 130, 1, 187, 0, 132, 59, 154, 202, 0, 133, 4, 168, 23, 200, 0, 131,
      1, 134, 160, 148, 171, 205, 0, 0, 0, 0, 0, 0, 0, 0, 0, 0, 0, 0, 0, 0, 0,
      0, 0, 1, 0, 128, 192, 128, 128, 128]
    = ''ee8201bb00843b9aca008504a817c800830186a094abcd0000000000000000000000000000000000010080c0808080''"
    by (simp add: bytes_hex_def padStart_def nat_to_radix.simps digit_char_def)
  have hb: "hexToBytes (''0x'' @ ''ee8201bb00843b9aca008504a817c800830186a094abcd0000000000000000000000000000000000010080c0808080'')
    = [238, 130, 1, 187, 0, 132, 59, 154, 202, 0, 133, 4, 168, 23, 200, 0, 131,
      1, 134, 160, 148, 171, 205, 0, 0, 0, 0, 0, 0, 0, 0, 0, 0, 0, 0, 0, 0, 0,
      0, 0, 1, 0, 128, 192, 128, 128, 128]"
    by (simp add: hexToBytes_def parse_eval upt_rec)
  have bt: "btoa_bytes [2, 238, 130, 1, 187, 0, 132, 59, 154, 202, 0, 133, 4, 168, 23, 200, 0, 131,
      1, 134, 160, 148, 171, 205, 0, 0, 0, 0, 0, 0, 0, 0, 0, 0, 0, 0, 0, 0, 0,
      0, 0, 1, 0, 128, 192, 128, 128, 128]
    = ''Au6CAbsAhDuaygCFBKgXyACDAYaglKvNAAAAAAAAAAAAAAAAAAAAAAABAIDAgICA''"
    by (simp add: b64_char_def)
  show ?thesis by (simp only: bh hb bt)
qed

text \<open>
  C4, at a store that holds a session key with \<open>isActive = false\<close>: \<open>sendTransaction\<close>
  does not fail with the no-session-key error; it builds the transaction and submits it
  through the execute address.
\<close>

theorem sendTransaction_submits_with_inactive_key:
  "isActive (state world_with_key) = False
   \<and> snd (sendTransaction example_constants example_tx_with_fees provider_no_fee_history
         world_with_key) = Inr (RString ''0xabc'')
   \<and> requests (fst (sendTransaction example_constants example_tx_with_fees
         provider_no_fee_history world_with_key))
     = [eth_chainId, eth_chainId,
        eth_getStorageAt ''0x06''
         ''Au6CAbsAhDuaygCFBKgXyACDAYaglKvNAAAAAAAAAAAAAAAAAAAAAAABAIDAgICA'']"
proof -
  let ?key = "''0x00000000000000000000000000000000000000aa''"
  have c1: "provider_no_fee_history (requests world_with_key) eth_chainId = Inr (RString ''0x1bb'')"
    and c2: "provider_no_fee_history (requests world_with_key @ [eth_chainId]) eth_chainId
               = Inr (RString ''0x1bb'')"
    by (simp_all add: provider_no_fee_history_def)
  have id: "parseInt16 (js_String (RString ''0x1bb'')) = Some (TEN_CHAIN_ID example_constants)"
    by (simp add: example_parse example_constants_fields)
  have b: "txArray (parseInt16 (js_String (RString ''0x1bb''))) (Some 0) 1000000000 20000000000
             (Some 100000) example_tx_with_fees
           = Inr [Str ''0x1bb'', Str ''0x0'', Str ''0x3b9aca00'', Str ''0x4a817c800'',
                  Str ''0x186a0'', Str ''0xabcd000000000000000000000000000000000001'',
                  Str ''0x0'', Str ''0x'', EmptyList, Str ''0x'', Str ''0x'', Str ''0x'']"
    by (simp only: example_parse example_txArray_with_fees)
  have s: "provider_no_fee_history (requests world_with_key @ [eth_chainId, eth_chainId])
             (eth_getStorageAt (SESSION_KEY_EXECUTE example_constants)
                (btoa_bytes (2 # hexToBytes (''0x'' @ bytes_hex
                   [238, 130, 1, 187, 0, 132, 59, 154, 202, 0, 133, 4, 168, 23, 200, 0, 131,
                    1, 134, 160, 148, 171, 205, 0, 0, 0, 0, 0, 0, 0, 0, 0, 0, 0, 0, 0, 0, 0,
                    0, 0, 1, 0, 128, 192, 128, 128, 128]))))
           = Inr (RString ''0xabc'')"
    by (simp add: provider_no_fee_history_def)
  have ne: "?key \<noteq> []" "''20000000000'' \<noteq> []" "''1000000000'' \<noteq> []" "(100000::int) \<noteq> 0"
    by simp_all
  note run = sendTransaction_with_explicit_fees[of provider_no_fee_history world_with_key
      "RString ''0x1bb''" example_constants ?key "RString ''0x1bb''" example_tx_with_fees 0
      "''20000000000''" 20000000000 "''1000000000''" 1000000000 100000 txArray _ _ _
      calculateGasFees,
      OF c1 id world_with_key_fields(2) ne(1) c2 example_tx_fields(7) example_tx_fields(8)
        ne(2) example_parse(3) example_tx_fields(9) ne(3) example_parse(4)
        example_tx_fields(10) ne(4) b payload_with_fees s]
  show ?thesis
    using run unfolding base64_with_fees
    by (simp add: sendTransaction_def world_with_key_fields example_constants_fields)
qed

section \<open>The confirmation poll of \<open>fundSessionKey\<close>\<close>

lemma poll_world_0: "poll_world h 0 w = w"
  by (simp add: poll_world_def)

lemma poll_world_Suc:
  "poll_world h i (w\<lparr>requests := requests w @ [eth_getTransactionReceipt h]\<rparr>) = poll_world h (Suc i) w"
  by (simp add: poll_world_def replicate_app_Cons_same)

lemma requests_poll_world:
  "requests (poll_world h i w) = requests w @ replicate i (eth_getTransactionReceipt h)"
  by (simp add: poll_world_def)

lemma state_poll_world: "state (poll_world h i w) = state w"
  by (simp add: poll_world_def)

lemma checkTx_returns_at_first_receipt:
  assumes "\<forall>i < n. \<exists>e. prov (requests (poll_world h i w)) (eth_getTransactionReceipt h) = Inr e \<and> \<not> truthy e"
    and "prov (requests (poll_world h n w)) (eth_getTransactionReceipt h) = r"
    and "case r of Inl t \<Rightarrow> True | Inr e \<Rightarrow> truthy e"
  shows "checkTx prov h w = Some (poll_world h (Suc n) w, r)"
  using assms
proof (induction n arbitrary: w)
  case 0
  then show ?case
    by (subst checkTx.simps) (auto simp: request_def poll_world_def split: sum.splits)
next
  case (Suc n)
  let ?w' = "w\<lparr>requests := requests w @ [eth_getTransactionReceipt h]\<rparr>"
  from Suc.prems(1)[rule_format, of 0] obtain e where
    e: "prov (requests w) (eth_getTransactionReceipt h) = Inr e" "\<not> truthy e"
    by (auto simp: poll_world_def)
  have 1: "\<forall>i < n. \<exists>e. prov (requests (poll_world h i ?w')) (eth_getTransactionReceipt h) = Inr e \<and> \<not> truthy e"
  proof (intro allI impI)
    fix i assume "i < n"
    then show "\<exists>e. prov (requests (poll_world h i ?w')) (eth_getTransactionReceipt h) = Inr e \<and> \<not> truthy e"
      using Suc.prems(1)[rule_format, of "Suc i"] by (simp add: poll_world_Suc)
  qed
  have 2: "prov (requests (poll_world h n ?w')) (eth_getTransactionReceipt h) = r"
    using Suc.prems(2) by (simp add: poll_world_Suc)
  have "checkTx prov h ?w' = Some (poll_world h (Suc n) ?w', r)"
    using Suc.IH[OF 1 2 Suc.prems(3)] .
  then show ?case
    using e by (subst checkTx.simps) (simp add: request_def poll_world_Suc)
qed

lemma checkTx_Some_has_answer:
  assumes "checkTx prov h w = Some y"
  shows "\<exists>n. case prov (requests (poll_world h n w)) (eth_getTransactionReceipt h) of
            Inl t \<Rightarrow> True | Inr e \<Rightarrow> truthy e"
proof -
  let ?P = "\<lambda>prov h w (y :: world \<times> (thrown + response)).
     \<exists>n. case prov (requests (poll_world h n w)) (eth_getTransactionReceipt h) of
            Inl t \<Rightarrow> True | Inr e \<Rightarrow> truthy e"
  have step: "?P prov h w y"
    if IH: "\<And>prov h w y. f prov h w = Some y \<Longrightarrow> ?P prov h w y"
    and eq: "(case request prov (eth_getTransactionReceipt h) w of
                (w', Inl t) \<Rightarrow> Some (w', Inl t)
              | (w', Inr receipt) \<Rightarrow>
                  if truthy receipt then Some (w', Inr receipt) else f prov h w') = Some y"
    for f prov h w y
  proof -
    let ?w' = "w\<lparr>requests := requests w @ [eth_getTransactionReceipt h]\<rparr>"
    show ?thesis
    proof (cases "prov (requests w) (eth_getTransactionReceipt h)")
      case (Inl t)
      then have "case prov (requests (poll_world h 0 w)) (eth_getTransactionReceipt h) of
              Inl t \<Rightarrow> True | Inr e \<Rightarrow> truthy e" by (simp add: poll_world_0)
      then show ?thesis by blast
    next
      case (Inr e)
      show ?thesis
      proof (cases "truthy e")
        case True
        then have "case prov (requests (poll_world h 0 w)) (eth_getTransactionReceipt h) of
              Inl t \<Rightarrow> True | Inr e \<Rightarrow> truthy e" using Inr by (simp add: poll_world_0)
        then show ?thesis by blast
      next
        case False
        then have "f prov h ?w' = Some y"
          using eq Inr by (simp add: request_def)
        from IH[OF this] obtain n where
          "case prov (requests (poll_world h n ?w')) (eth_getTransactionReceipt h) of
              Inl t \<Rightarrow> True | Inr e \<Rightarrow> truthy e" by blast
        then have "case prov (requests (poll_world h (Suc n) w)) (eth_getTransactionReceipt h) of
              Inl t \<Rightarrow> True | Inr e \<Rightarrow> truthy e" by (simp add: poll_world_Suc)
        then show ?thesis by blast
      qed
    qed
  qed
  from assms show ?thesis
    by (rule checkTx.raw_induct[where P = ?P, rotated]) (rule step; assumption)
qed

lemma checkTx_never_returns:
  assumes "\<forall>i. \<exists>e. prov (requests (poll_world h i w)) (eth_getTransactionReceipt h) = Inr e \<and> \<not> truthy e"
  shows "checkTx prov h w = None"
proof (cases "checkTx prov h w")
  case None then show ?thesis .
next
  case (Some y)
  from checkTx_Some_has_answer[OF this] obtain n where
    n: "case prov (requests (poll_world h n w)) (eth_getTransactionReceipt h) of
            Inl t \<Rightarrow> True | Inr e \<Rightarrow> truthy e" by blast
  from assms obtain e where "prov (requests (poll_world h n w)) (eth_getTransactionReceipt h) = Inr e" "\<not> truthy e"
    by blast
  with n show ?thesis by simp
qed

lemma fund_reaches_poll:
  assumes c: "prov (requests w) eth_chainId = Inr r1"
      "parseInt16 (js_String r1) = Some (TEN_CHAIN_ID cfg)"
    and a: "parseEther amount = Some v"
    and s: "prov (requests w @ [eth_chainId]) (eth_sendTransaction addr (toHex v) user) = Inr h"
  shows "fundSessionKey cfg addr amount prov user w =
     (case checkTx prov h (updateState loading w
              \<lparr>requests := requests w @ [eth_chainId, eth_sendTransaction addr (toHex v) user]\<rparr>) of
        None \<Rightarrow> None
      | Some (w2, Inl t) \<Rightarrow> Some (catch_update ''Unknown error'' (w2, Inl t))
      | Some (w2, Inr receipt) \<Rightarrow>
          Some (updateState (no_updates\<lparr>upd_isLoading := Some False\<rparr>) w2, Inr h))"
  using assms by (simp add: fundSessionKey_def io_simps)

lemma fund_returns_after_polls:
  assumes c: "prov (requests w) eth_chainId = Inr r1"
      "parseInt16 (js_String r1) = Some (TEN_CHAIN_ID cfg)"
    and a: "parseEther amount = Some v"
    and s: "prov (requests w @ [eth_chainId]) (eth_sendTransaction addr (toHex v) user) = Inr h"
    and e: "\<forall>i < n. \<exists>e. prov (requests w @ [eth_chainId, eth_sendTransaction addr (toHex v) user]
                           @ replicate i (eth_getTransactionReceipt h))
                      (eth_getTransactionReceipt h) = Inr e \<and> \<not> truthy e"
    and r: "prov (requests w @ [eth_chainId, eth_sendTransaction addr (toHex v) user]
                    @ replicate n (eth_getTransactionReceipt h))
               (eth_getTransactionReceipt h) = Inr receipt" "truthy receipt"
  shows "\<exists>w'. fundSessionKey cfg addr amount prov user w = Some (w', Inr h)
            \<and> requests w' = requests w @ [eth_chainId, eth_sendTransaction addr (toHex v) user]
                  @ replicate (Suc n) (eth_getTransactionReceipt h)"
proof -
  let ?w1 = "updateState loading w
              \<lparr>requests := requests w @ [eth_chainId, eth_sendTransaction addr (toHex v) user]\<rparr>"
  have 1: "\<forall>i < n. \<exists>e. prov (requests (poll_world h i ?w1)) (eth_getTransactionReceipt h) = Inr e
              \<and> \<not> truthy e"
    using e by (simp add: requests_poll_world)
  have 2: "prov (requests (poll_world h n ?w1)) (eth_getTransactionReceipt h) = Inr receipt"
    using r(1) by (simp add: requests_poll_world)
  have 3: "case (Inr receipt :: thrown + response) of Inl t \<Rightarrow> True | Inr e \<Rightarrow> truthy e"
    using r(2) by simp
  have "checkTx prov h ?w1 = Some (poll_world h (Suc n) ?w1, Inr receipt)"
    using 1 2 3 by (rule checkTx_returns_at_first_receipt[where r = "Inr receipt"])
  then show ?thesis
    using fund_reaches_poll[where prov = prov and w = w and ?r1.0 = r1 and cfg = cfg and amount = amount and v = v and addr = addr and user = user and h = h, OF c a s]
    by (simp add: requests_updateState requests_poll_world)
qed

lemma fund_never_returns:
  assumes c: "prov (requests w) eth_chainId = Inr r1"
      "parseInt16 (js_String r1) = Some (TEN_CHAIN_ID cfg)"
    and a: "parseEther amount = Some v"
    and s: "prov (requests w @ [eth_chainId]) (eth_sendTransaction addr (toHex v) user) = Inr h"
    and e: "\<forall>i. \<exists>e. prov (requests w @ [eth_chainId, eth_sendTransaction addr (toHex v) user]
                           @ replicate i (eth_getTransactionReceipt h))
                      (eth_getTransactionReceipt h) = Inr e \<and> \<not> truthy e"
  shows "fundSessionKey cfg addr amount prov user w = None"
proof -
  let ?w1 = "updateState loading w
              \<lparr>requests := requests w @ [eth_chainId, eth_sendTransaction addr (toHex v) user]\<rparr>"
  have "\<forall>i. \<exists>e. prov (requests (poll_world h i ?w1)) (eth_getTransactionReceipt h) = Inr e
              \<and> \<not> truthy e"
    using e by (simp add: requests_poll_world)
  then have "checkTx prov h ?w1 = None" by (rule checkTx_never_returns)
  then show ?thesis using fund_reaches_poll[where prov = prov and w = w and ?r1.0 = r1 and cfg = cfg and amount = amount and v = v and addr = addr and user = user and h = h, OF c a s] by simp
qed

lemma example_amount:
  "parseEther ''0.025'' = Some 25000000000000000"
  "toHex 25000000000000000 = ''0x58d15e17628000''"
proof -
  have d: "list_all (is_radix_digit 10) ''0''" "list_all (is_radix_digit 10) ''025''"
    by (simp_all add: is_radix_digit_def digit_val_def)
  have v: "digits_value 10 ''0'' = 0" "digits_value 10 ''025'' = 25"
    by (simp_all add: digits_value_def digit_val_def)
  have "parseEther ''0.025'' = BigInt_of_string (''0'' @ take 18 (padEnd 18 CHR ''0'' ''025''))"
    by (simp add: parseEther_def)
  also have "\<dots> = Some 25000000000000000"
    using parseEther_padded[OF d] by (simp add: v)
  finally show "parseEther ''0.025'' = Some 25000000000000000" .
  show "toHex 25000000000000000 = ''0x58d15e17628000''"
    by (simp add: toHex_eval)
qed

text \<open>
  C7, as the code has it. Once the funding transaction is sent, \<open>fundSessionKey\<close> polls
  for the receipt with no cap on the number of polls and no timeout error: for every
  \<open>n\<close>, if the first \<open>n\<close> polls come back empty and the next one brings a receipt, the
  call returns the transaction hash after exactly \<open>n + 1\<close> polls; and if every poll
  comes back empty, the call never returns.
\<close>

theorem confirmation_poll_has_no_bound:
  assumes c: "prov (requests w) eth_chainId = Inr r1"
      "parseInt16 (js_String r1) = Some (TEN_CHAIN_ID cfg)"
    and a: "parseEther amount = Some v"
    and s: "prov (requests w @ [eth_chainId]) (eth_sendTransaction addr (toHex v) user) = Inr h"
  shows "(\<forall>n receipt.
            (\<forall>i < n. \<exists>e. prov (requests w @ [eth_chainId, eth_sendTransaction addr (toHex v) user]
                                  @ replicate i (eth_getTransactionReceipt h))
                             (eth_getTransactionReceipt h) = Inr e \<and> \<not> truthy e)
            \<and> prov (requests w @ [eth_chainId, eth_sendTransaction addr (toHex v) user]
                       @ replicate n (eth_getTransactionReceipt h))
                  (eth_getTransactionReceipt h) = Inr receipt
            \<and> truthy receipt
            \<longrightarrow> (\<exists>w'. fundSessionKey cfg addr amount prov user w = Some (w', Inr h)
                   \<and> requests w' = requests w
                        @ [eth_chainId, eth_sendTransaction addr (toHex v) user]
                        @ replicate (Suc n) (eth_getTransactionReceipt h)))
       \<and> ((\<forall>i. \<exists>e. prov (requests w @ [eth_chainId, eth_sendTransaction addr (toHex v) user]
                             @ replicate i (eth_getTransactionReceipt h))
                        (eth_getTransactionReceipt h) = Inr e \<and> \<not> truthy e)
            \<longrightarrow> fundSessionKey cfg addr amount prov user w = None)"
  using fund_returns_after_polls[where prov = prov and w = w and ?r1.0 = r1 and cfg = cfg and amount = amount and v = v and addr = addr and user = user and h = h, OF c a s] fund_never_returns[where prov = prov and w = w and ?r1.0 = r1 and cfg = cfg and amount = amount and v = v and addr = addr and user = user and h = h, OF c a s] by blast

theorem confirmation_poll_has_no_bound_witness:
  "provider_receipt_after 2 (requests world_with_key) eth_chainId = Inr (RString ''0x1bb'')
   \<and> parseInt16 (js_String (RString ''0x1bb'')) = Some (TEN_CHAIN_ID example_constants)
   \<and> parseEther ''0.025'' = Some 25000000000000000
   \<and> provider_receipt_after 2 (requests world_with_key @ [eth_chainId])
        (eth_sendTransaction ''0xaa'' (toHex 25000000000000000) ''0xuser'')
       = Inr (RString ''0xabc'')
   \<and> (\<exists>w'. fundSessionKey example_constants ''0xaa'' ''0.025'' (provider_receipt_after 2)
               ''0xuser'' world_with_key = Some (w', Inr (RString ''0xabc''))
          \<and> requests w' =
               [eth_chainId, eth_sendTransaction ''0xaa'' ''0x58d15e17628000'' ''0xuser'',
                eth_getTransactionReceipt (RString ''0xabc''),
                eth_getTransactionReceipt (RString ''0xabc''),
                eth_getTransactionReceipt (RString ''0xabc'')])"
proof -
  let ?q = "eth_getTransactionReceipt (RString ''0xabc'')"
  let ?pre = "[eth_chainId, eth_sendTransaction ''0xaa'' (toHex 25000000000000000) ''0xuser'']"
  have c: "provider_receipt_after 2 (requests world_with_key) eth_chainId = Inr (RString ''0x1bb'')"
    by (simp add: provider_receipt_after_def)
  have id: "parseInt16 (js_String (RString ''0x1bb'')) = Some (TEN_CHAIN_ID example_constants)"
    by (simp add: example_parse example_constants_fields)
  have s: "provider_receipt_after 2 (requests world_with_key @ [eth_chainId])
             (eth_sendTransaction ''0xaa'' (toHex 25000000000000000) ''0xuser'')
           = Inr (RString ''0xabc'')"
    by (simp add: provider_receipt_after_def)
  have p: "polls (requests world_with_key @ ?pre @ replicate i ?q) = i" for i
    by (simp add: polls_def world_with_key_fields)
  have e: "\<forall>i < 2. \<exists>e. provider_receipt_after 2 (requests world_with_key @ ?pre @ replicate i ?q) ?q
              = Inr e \<and> \<not> truthy e"
    unfolding provider_receipt_after_def p by (simp add: truthy_def)
  have r: "provider_receipt_after 2 (requests world_with_key @ ?pre @ replicate 2 ?q) ?q = Inr RObject"
    unfolding provider_receipt_after_def p by simp
  have t: "truthy RObject" by (simp add: truthy_def)
  have rep: "replicate (Suc 2) ?q = [?q, ?q, ?q]" by (simp add: numeral_2_eq_2)
  note inst = confirmation_poll_has_no_bound[of "provider_receipt_after 2" world_with_key
      "RString ''0x1bb''" example_constants "''0.025''" 25000000000000000 "''0xaa''" "''0xuser''"
      "RString ''0xabc''", OF c id example_amount(1) s]
  from inst e r t have "\<exists>w'. fundSessionKey example_constants ''0xaa'' ''0.025''
        (provider_receipt_after 2) ''0xuser'' world_with_key = Some (w', Inr (RString ''0xabc''))
      \<and> requests w' = requests world_with_key @ ?pre @ replicate (Suc 2) ?q"
    by blast
  then have "\<exists>w'. fundSessionKey example_constants ''0xaa'' ''0.025''
        (provider_receipt_after 2) ''0xuser'' world_with_key = Some (w', Inr (RString ''0xabc''))
      \<and> requests w' = [eth_chainId, eth_sendTransaction ''0xaa'' ''0x58d15e17628000'' ''0xuser'',
                ?q, ?q, ?q]"
    by (simp only: rep example_amount(2) world_with_key_fields append.simps)
  then show ?thesis using c id example_amount(1) s by simp
qed

text \<open>With a provider that never has a receipt the call does not end in an error: it does
  not end.\<close>

theorem fundSessionKey_polls_forever_counterexample:
  "fundSessionKey example_constants ''0xaa'' ''0.025'' provider_no_receipt ''0xuser''
     world_with_key = None"
proof -
  have c: "provider_no_receipt (requests world_with_key) eth_chainId = Inr (RString ''0x1bb'')"
    by (simp add: provider_no_receipt_def)
  have id: "parseInt16 (js_String (RString ''0x1bb'')) = Some (TEN_CHAIN_ID example_constants)"
    by (simp add: example_parse example_constants_fields)
  have s: "provider_no_receipt (requests world_with_key @ [eth_chainId])
             (eth_sendTransaction ''0xaa'' (toHex 25000000000000000) ''0xuser'')
           = Inr (RString ''0xabc'')"
    by (simp add: provider_no_receipt_def)
  have e: "\<forall>i. \<exists>e. provider_no_receipt
              (requests world_with_key
                 @ [eth_chainId, eth_sendTransaction ''0xaa'' (toHex 25000000000000000) ''0xuser'']
                 @ replicate i (eth_getTransactionReceipt (RString ''0xabc'')))
              (eth_getTransactionReceipt (RString ''0xabc'')) = Inr e \<and> \<not> truthy e"
    by (simp add: provider_no_receipt_def truthy_def)
  show ?thesis
    by (rule fund_never_returns[of provider_no_receipt world_with_key "RString ''0x1bb''"
          example_constants "''0.025''" 25000000000000000 "''0xaa''" "''0xuser''"
          "RString ''0xabc''", OF c id example_amount(1) s e])
qed

section \<open>The invariant between \<open>isActive\<close> and \<open>sessionKey\<close>\<close>



















lemmas run_simps = io_bind_def io_return_def io_throw_def io_update_def request_def
  checkTenNetwork_def catch_update_def Let_def sessionKey_updateState isActive_updateState
  no_updates_fields loading_fields






lemma store_session_key_outcome:
  "isActive (state (fst (store_session_key r w))) = isActive (state w)
   \<and> (sessionKey (state (fst (store_session_key r w))) = sessionKey (state w)
      \<or> sessionKey (state (fst (store_session_key r w))) \<noteq> None)"
  by (simp add: store_session_key_def extract_address_def run_simps split: response.splits)










end
